theory Spec2Isabelle
  imports Complex_Main "HOL-Library.Log_Nat"
begin

section \<open>Stock ledger: the inventory and stock\_movements tables\<close>

text \<open>
  The schema and the PL/pgSQL function \<open>update_inventory\<close> of the database script.
  A UUID is a natural number (\<open>uuid_nil\<close> is 0), a nullable column is an \<open>option\<close>,
  a \<open>TIMESTAMPTZ\<close> is a natural number.  A table is the list of its rows in insertion
  order; \<open>uuid_generate_v4()\<close> draws from a supply kept in the database state.

  A \<open>DECIMAL(15,3)\<close> column holds an integer count of thousandths, a \<open>DECIMAL(15,4)\<close>
  column an integer count of ten-thousandths, each of absolute value below \<open>10 ^ 15\<close>.
  The parameters and variables declared \<open>DECIMAL\<close> without precision are exact
  rationals (finite values; \<open>NaN\<close> and the infinities of \<open>numeric\<close> are left out).
  Storing a value in a column rounds it to the scale of the column, half away from zero,
  and raises \<open>numeric_value_out_of_range\<close> (22003) when the rounded value needs more
  than 15 digits; storing a text longer than a \<open>VARCHAR(n)\<close> raises
  \<open>string_data_right_truncation\<close> (22001) unless only blanks are cut; inserting a row
  that references a missing row raises \<open>foreign_key_violation\<close> (23503).  A call that
  raises returns the error and no database: nothing it wrote remains.

  The function runs as a role that row level security does not restrict.  The arguments
  stored in \<open>NOT NULL\<close> columns (warehouse, item, quantity, movement type) are not
  \<open>NULL\<close>, which their types say; texts are ASCII.  The rows that the audit triggers
  add to \<open>audit_logs\<close> are not part of this state; the trigger function is modelled on
  its own below.
\<close>

type_synonym uuid = nat
type_synonym timestamptz = nat
type_synonym decimal_15_3 = int
type_synonym decimal_15_4 = int

definition uuid_nil :: uuid where
  "uuid_nil = 0"

datatype pg_error =
  numeric_value_out_of_range | foreign_key_violation | string_data_right_truncation
  | invalid_text_representation

datatype stock_movement_type =
  mt_in | mt_out | mt_transfer | mt_adjustment | mt_sale | mt_return | mt_work_order

text \<open>The value of a column: \<open>dec3 10001\<close> is 10.001, \<open>dec4 20000\<close> is 2.0000.\<close>

definition dec3 :: "decimal_15_3 \<Rightarrow> rat" where
  "dec3 n = of_int n / 1000"

definition dec4 :: "decimal_15_4 \<Rightarrow> rat" where
  "dec4 n = of_int n / 10000"

text \<open>Rounding of \<open>numeric\<close> to a scale: to the nearest, a tie away from zero.\<close>

definition round_half_away :: "rat \<Rightarrow> int" where
  "round_half_away x = (if 0 \<le> x then \<lfloor>x + 1 / 2\<rfloor> else - \<lfloor>- x + 1 / 2\<rfloor>)"

definition to_decimal_15_3 :: "rat \<Rightarrow> pg_error + decimal_15_3" where
  "to_decimal_15_3 x =
     (let n = round_half_away (x * 1000)
      in if \<bar>n\<bar> < 10 ^ 15 then Inr n else Inl numeric_value_out_of_range)"

definition to_decimal_15_4 :: "rat \<Rightarrow> pg_error + decimal_15_4" where
  "to_decimal_15_4 x =
     (let n = round_half_away (x * 10000)
      in if \<bar>n\<bar> < 10 ^ 15 then Inr n else Inl numeric_value_out_of_range)"

text \<open>Assignment to \<open>VARCHAR(n)\<close>: excess blanks are cut, any other excess raises.\<close>

definition to_varchar :: "nat \<Rightarrow> string \<Rightarrow> pg_error + string" where
  "to_varchar n s =
     (if length s \<le> n then Inr s
      else if list_all (\<lambda>c. c = CHR '' '') (drop n s) then Inr (take n s)
      else Inl string_data_right_truncation)"

record inventory =
  inv_id :: uuid
  inv_warehouse_id :: uuid
  inv_item_id :: uuid
  inv_variant_id :: "uuid option"
  inv_quantity :: decimal_15_3
  inv_reserved_quantity :: decimal_15_3
  inv_available_quantity :: decimal_15_3
  inv_avg_cost :: "decimal_15_4 option"
  inv_last_restock_at :: "timestamptz option"
  inv_last_sold_at :: "timestamptz option"
  inv_created_at :: "timestamptz option"
  inv_updated_at :: "timestamptz option"

record stock_movements =
  sm_id :: uuid
  sm_warehouse_id :: uuid
  sm_item_id :: uuid
  sm_variant_id :: "uuid option"
  sm_movement_type :: stock_movement_type
  sm_reference_type :: "string option"
  sm_reference_id :: "uuid option"
  sm_quantity :: decimal_15_3
  sm_unit_cost :: "decimal_15_4 option"
  sm_quantity_before :: decimal_15_3
  sm_quantity_after :: decimal_15_3
  sm_notes :: "string option"
  sm_created_by :: "uuid option"
  sm_created_at :: "timestamptz option"

text \<open>Of \<open>warehouses\<close>, \<open>items\<close>, \<open>item_variants\<close> and \<open>users\<close> the primary keys
  are kept: they are what the foreign keys of the two ledger tables look up.\<close>

record db =
  warehouses_tbl :: "uuid list"
  items_tbl :: "uuid list"
  item_variants_tbl :: "uuid list"
  users_tbl :: "uuid list"
  inventory_tbl :: "inventory list"
  stock_movements_tbl :: "stock_movements list"
  uuid_supply :: nat

text \<open>A foreign key column: \<open>NULL\<close> references nothing, a value must be a key of the table.\<close>

definition references :: "uuid list \<Rightarrow> uuid option \<Rightarrow> bool" where
  "references tbl x = (case x of None \<Rightarrow> True | Some k \<Rightarrow> k \<in> set tbl)"

text \<open>
  \<open>available_quantity DECIMAL(15,3) GENERATED ALWAYS AS (quantity - reserved_quantity) STORED\<close>:
  the store recomputes the column whenever it writes a row, and the difference has to fit
  the column like any other value.
\<close>

definition store_generated :: "inventory \<Rightarrow> pg_error + inventory" where
  "store_generated r =
     (case to_decimal_15_3 (dec3 (inv_quantity r) - dec3 (inv_reserved_quantity r)) of
        Inl e \<Rightarrow> Inl e
      | Inr a \<Rightarrow> Inr (r\<lparr>inv_available_quantity := a\<rparr>))"

definition coalesce :: "'a option \<Rightarrow> 'a \<Rightarrow> 'a" where
  "coalesce x d = (case x of None \<Rightarrow> d | Some v \<Rightarrow> v)"

text \<open>
  The \<open>WHERE\<close> clause of the lookup:
  \<open>warehouse_id = p_warehouse_id AND item_id = p_item_id AND
   COALESCE(variant_id, uuid_nil()) = COALESCE(p_variant_id, uuid_nil())\<close>.
\<close>

definition inventory_key_match :: "uuid \<Rightarrow> uuid \<Rightarrow> uuid option \<Rightarrow> inventory \<Rightarrow> bool" where
  "inventory_key_match p_warehouse_id p_item_id p_variant_id r \<longleftrightarrow>
     inv_warehouse_id r = p_warehouse_id \<and> inv_item_id r = p_item_id \<and>
     coalesce (inv_variant_id r) uuid_nil = coalesce p_variant_id uuid_nil"

text \<open>\<open>SELECT id, quantity INTO ...\<close>: the first row that matches, if any.\<close>

definition select_inventory :: "uuid \<Rightarrow> uuid \<Rightarrow> uuid option \<Rightarrow> db \<Rightarrow> inventory option" where
  "select_inventory p_warehouse_id p_item_id p_variant_id d =
     find (inventory_key_match p_warehouse_id p_item_id p_variant_id) (inventory_tbl d)"

text \<open>
  \<open>INSERT INTO inventory (warehouse_id, item_id, variant_id, quantity) VALUES (..., 0)
   RETURNING id\<close>: the other columns take their defaults, and the three foreign keys
  are checked once the row is built.
\<close>

definition insert_inventory ::
  "uuid \<Rightarrow> uuid \<Rightarrow> uuid option \<Rightarrow> timestamptz \<Rightarrow> db \<Rightarrow> pg_error + uuid \<times> db" where
  "insert_inventory p_warehouse_id p_item_id p_variant_id now d =
     (let new_id = uuid_supply d
      in case store_generated
                \<lparr>inv_id = new_id, inv_warehouse_id = p_warehouse_id, inv_item_id = p_item_id,
                 inv_variant_id = p_variant_id, inv_quantity = 0, inv_reserved_quantity = 0,
                 inv_available_quantity = 0, inv_avg_cost = Some 0,
                 inv_last_restock_at = None, inv_last_sold_at = None,
                 inv_created_at = Some now, inv_updated_at = Some now\<rparr> of
           Inl e \<Rightarrow> Inl e
         | Inr r \<Rightarrow>
             if p_warehouse_id \<in> set (warehouses_tbl d) \<and> p_item_id \<in> set (items_tbl d)
                \<and> references (item_variants_tbl d) p_variant_id
             then Inr (new_id, d\<lparr>inventory_tbl := inventory_tbl d @ [r],
                                 uuid_supply := Suc (uuid_supply d)\<rparr>)
             else Inl foreign_key_violation)"

text \<open>
  \<open>UPDATE inventory SET quantity = v_qty_after, updated_at = NOW() WHERE id = v_inventory_id\<close>:
  every row with that id takes the new quantity, rounded to the column, and has its
  generated column recomputed.
\<close>

definition update_row :: "rat \<Rightarrow> timestamptz \<Rightarrow> inventory \<Rightarrow> pg_error + inventory" where
  "update_row v_qty_after now r =
     (case to_decimal_15_3 v_qty_after of
        Inl e \<Rightarrow> Inl e
      | Inr n \<Rightarrow> store_generated (r\<lparr>inv_quantity := n, inv_updated_at := Some now\<rparr>))"

fun update_rows :: "uuid \<Rightarrow> rat \<Rightarrow> timestamptz \<Rightarrow> inventory list \<Rightarrow> pg_error + inventory list" where
  "update_rows v_inventory_id v_qty_after now [] = Inr []"
| "update_rows v_inventory_id v_qty_after now (r # rs) =
     (case (if inv_id r = v_inventory_id then update_row v_qty_after now r else Inr r) of
        Inl e \<Rightarrow> Inl e
      | Inr r' \<Rightarrow>
          (case update_rows v_inventory_id v_qty_after now rs of
             Inl e \<Rightarrow> Inl e
           | Inr rs' \<Rightarrow> Inr (r' # rs')))"

definition update_inventory_quantity :: "uuid \<Rightarrow> rat \<Rightarrow> timestamptz \<Rightarrow> db \<Rightarrow> pg_error + db" where
  "update_inventory_quantity v_inventory_id v_qty_after now d =
     (case update_rows v_inventory_id v_qty_after now (inventory_tbl d) of
        Inl e \<Rightarrow> Inl e
      | Inr rows \<Rightarrow> Inr (d\<lparr>inventory_tbl := rows\<rparr>))"

text \<open>
  \<open>INSERT INTO stock_movements (...) VALUES (...) RETURNING id\<close>: the values are
  converted to their columns in the order of the columns, then the foreign keys of the new
  row are checked.
\<close>

definition insert_stock_movement ::
  "uuid \<Rightarrow> uuid \<Rightarrow> uuid option \<Rightarrow> stock_movement_type \<Rightarrow> string option \<Rightarrow> uuid option \<Rightarrow>
   rat \<Rightarrow> rat option \<Rightarrow> rat \<Rightarrow> rat \<Rightarrow> uuid option \<Rightarrow> timestamptz \<Rightarrow> db \<Rightarrow> pg_error + uuid \<times> db" where
  "insert_stock_movement p_warehouse_id p_item_id p_variant_id p_movement_type p_reference_type
       p_reference_id p_quantity p_unit_cost v_qty_before v_qty_after p_user_id now d =
     (case (case p_reference_type of None \<Rightarrow> Inr None
            | Some s \<Rightarrow> (case to_varchar 50 s of Inl e \<Rightarrow> Inl e | Inr t \<Rightarrow> Inr (Some t))) of
        Inl e \<Rightarrow> Inl e
      | Inr reference_type \<Rightarrow>
     (case to_decimal_15_3 p_quantity of
        Inl e \<Rightarrow> Inl e
      | Inr quantity \<Rightarrow>
     (case (case p_unit_cost of None \<Rightarrow> Inr None
            | Some c \<Rightarrow> (case to_decimal_15_4 c of Inl e \<Rightarrow> Inl e | Inr k \<Rightarrow> Inr (Some k))) of
        Inl e \<Rightarrow> Inl e
      | Inr unit_cost \<Rightarrow>
     (case to_decimal_15_3 v_qty_before of
        Inl e \<Rightarrow> Inl e
      | Inr quantity_before \<Rightarrow>
     (case to_decimal_15_3 v_qty_after of
        Inl e \<Rightarrow> Inl e
      | Inr quantity_after \<Rightarrow>
          if p_warehouse_id \<in> set (warehouses_tbl d) \<and> p_item_id \<in> set (items_tbl d)
             \<and> references (item_variants_tbl d) p_variant_id
             \<and> references (users_tbl d) p_user_id
          then
            (let new_id = uuid_supply d;
                 m = \<lparr>sm_id = new_id, sm_warehouse_id = p_warehouse_id, sm_item_id = p_item_id,
                      sm_variant_id = p_variant_id, sm_movement_type = p_movement_type,
                      sm_reference_type = reference_type, sm_reference_id = p_reference_id,
                      sm_quantity = quantity, sm_unit_cost = unit_cost,
                      sm_quantity_before = quantity_before, sm_quantity_after = quantity_after,
                      sm_notes = None, sm_created_by = p_user_id, sm_created_at = Some now\<rparr>
             in Inr (new_id, d\<lparr>stock_movements_tbl := stock_movements_tbl d @ [m],
                                 uuid_supply := Suc (uuid_supply d)\<rparr>))
          else Inl foreign_key_violation)))))"

text \<open>
  \<open>update_inventory\<close>: get or create the inventory record, calculate the new quantity,
  update the inventory, record the movement, return the movement's id.  \<open>now\<close> is the
  value of \<open>NOW()\<close> in the calling transaction.
\<close>

definition update_inventory ::
  "uuid \<Rightarrow> uuid \<Rightarrow> uuid option \<Rightarrow> rat \<Rightarrow> stock_movement_type \<Rightarrow> string option \<Rightarrow> uuid option \<Rightarrow>
   rat option \<Rightarrow> uuid option \<Rightarrow> timestamptz \<Rightarrow> db \<Rightarrow> pg_error + uuid \<times> db" where
  "update_inventory p_warehouse_id p_item_id p_variant_id p_quantity p_movement_type
       p_reference_type p_reference_id p_unit_cost p_user_id now d =
     (case (case select_inventory p_warehouse_id p_item_id p_variant_id d of
              Some r \<Rightarrow> Inr (inv_id r, dec3 (inv_quantity r), d)
            | None \<Rightarrow>
                (case insert_inventory p_warehouse_id p_item_id p_variant_id now d of
                   Inl e \<Rightarrow> Inl e
                 | Inr (new_id, d') \<Rightarrow> Inr (new_id, 0, d'))) of
        Inl e \<Rightarrow> Inl e
      | Inr (v_inventory_id, v_qty_before, d1) \<Rightarrow>
          (let v_qty_after = v_qty_before + p_quantity
           in case update_inventory_quantity v_inventory_id v_qty_after now d1 of
                Inl e \<Rightarrow> Inl e
              | Inr d2 \<Rightarrow>
                  insert_stock_movement p_warehouse_id p_item_id p_variant_id p_movement_type
                    p_reference_type p_reference_id p_quantity p_unit_cost v_qty_before
                    v_qty_after p_user_id now d2))"

text \<open>The quantity on hand recorded for a key: that of the row the lookup finds.\<close>

definition quantity_on_hand :: "uuid \<Rightarrow> uuid \<Rightarrow> uuid option \<Rightarrow> db \<Rightarrow> decimal_15_3 option" where
  "quantity_on_hand w i v d = map_option inv_quantity (select_inventory w i v d)"

definition avg_cost_of :: "uuid \<Rightarrow> uuid \<Rightarrow> uuid option \<Rightarrow> db \<Rightarrow> decimal_15_4 option option" where
  "avg_cost_of w i v d = map_option inv_avg_cost (select_inventory w i v d)"

text \<open>The quantity the function reads as \<open>v_qty_before\<close>: 0 when the key has no row yet.\<close>

definition qty_before :: "uuid \<Rightarrow> uuid \<Rightarrow> uuid option \<Rightarrow> db \<Rightarrow> decimal_15_3" where
  "qty_before w i v d = coalesce (quantity_on_hand w i v d) 0"

text \<open>The database after a call: as the call left it, or as it was when the call raised.\<close>

definition outcome_db :: "db \<Rightarrow> pg_error + uuid \<times> db \<Rightarrow> db" where
  "outcome_db d res = (case res of Inl e \<Rightarrow> d | Inr (mid, d') \<Rightarrow> d')"

text \<open>The row an \<open>UPDATE\<close> that stores \<open>n\<close> leaves in place of \<open>r\<close>.\<close>

definition written_row :: "decimal_15_3 \<Rightarrow> timestamptz \<Rightarrow> inventory \<Rightarrow> inventory" where
  "written_row n now r =
     r\<lparr>inv_quantity := n, inv_updated_at := Some now,
       inv_available_quantity := n - inv_reserved_quantity r\<rparr>"





text \<open>A call of \<open>update_inventory\<close> as data, and a sequence of calls run one after the
  other, each in its own transaction.\<close>

record call =
  c_warehouse_id :: uuid
  c_item_id :: uuid
  c_variant_id :: "uuid option"
  c_quantity :: rat
  c_movement_type :: stock_movement_type
  c_reference_type :: "string option"
  c_reference_id :: "uuid option"
  c_unit_cost :: "rat option"
  c_user_id :: "uuid option"
  c_now :: timestamptz

definition call_result :: "call \<Rightarrow> db \<Rightarrow> pg_error + uuid \<times> db" where
  "call_result c d =
     update_inventory (c_warehouse_id c) (c_item_id c) (c_variant_id c) (c_quantity c)
       (c_movement_type c) (c_reference_type c) (c_reference_id c) (c_unit_cost c)
       (c_user_id c) (c_now c) d"

definition apply_call :: "call \<Rightarrow> db \<Rightarrow> db" where
  "apply_call c d = outcome_db d (call_result c d)"




text \<open>The weighted-average cost formula as the specification words it, to set beside what
  the function does to \<open>avg_cost\<close>.\<close>

definition weighted_avg_cost :: "rat \<Rightarrow> rat \<Rightarrow> rat \<Rightarrow> rat \<Rightarrow> rat" where
  "weighted_avg_cost old_qty old_avg_cost in_qty unit_cost =
     (old_qty * old_avg_cost + in_qty * unit_cost) / (old_qty + in_qty)"

text \<open>A database holding one inventory row: 10.000 on hand, average cost 2.0000.\<close>

definition one_row_db :: db where
  "one_row_db =
     \<lparr>warehouses_tbl = [7], items_tbl = [8], item_variants_tbl = [0], users_tbl = [5],
      inventory_tbl =
        [\<lparr>inv_id = 1, inv_warehouse_id = 7, inv_item_id = 8, inv_variant_id = None,
          inv_quantity = 10000, inv_reserved_quantity = 0, inv_available_quantity = 10000,
          inv_avg_cost = Some 20000, inv_last_restock_at = None, inv_last_sold_at = None,
          inv_created_at = Some 0, inv_updated_at = Some 0\<rparr>],
      stock_movements_tbl = [], uuid_supply = 2\<rparr>"

text \<open>A call on that row's key, and two of them in a row: a sale of 3, then a receipt of 5
  that names the variant by \<open>uuid_nil\<close>, which the lookup treats as no variant.\<close>

definition stock_call :: "rat \<Rightarrow> stock_movement_type \<Rightarrow> rat option \<Rightarrow> call" where
  "stock_call q mt uc =
     \<lparr>c_warehouse_id = 7, c_item_id = 8, c_variant_id = None, c_quantity = q,
      c_movement_type = mt, c_reference_type = Some ''transaction'', c_reference_id = Some 40,
      c_unit_cost = uc, c_user_id = Some 5, c_now = 1\<rparr>"


section \<open>Sequence generator: document numbers\<close>

text \<open>
  \<open>generate_transaction_number\<close> and \<open>generate_work_order_number\<close>.  The SQL string
  functions they call are written out: \<open>SUBSTRING(s FROM n)\<close>, \<open>LENGTH\<close>,
  \<open>CAST(... AS INTEGER)\<close> (decimal integer input: blanks, an optional sign, digits;
  anything else raises), \<open>MAX\<close>, \<open>COALESCE\<close>, \<open>::TEXT\<close>, \<open>LPAD\<close> and
  \<open>TO_CHAR(date, 'YYMMDD')\<close>.  \<open>CURRENT_DATE\<close> is an argument.  Of each table the
  columns the functions read are kept.
\<close>

record date =
  d_year :: nat
  d_month :: nat
  d_day :: nat

record branches =
  br_id :: uuid
  br_code :: string

record transactions =
  tx_id :: uuid
  tx_branch_id :: uuid
  tx_transaction_number :: string
  tx_transaction_date :: date

record work_orders =
  wo_id :: uuid
  wo_branch_id :: uuid
  wo_work_order_number :: string
  wo_received_at :: "(date \<times> nat) option"

definition substring_from :: "string \<Rightarrow> int \<Rightarrow> string" where
  "substring_from s n = drop (nat (n - 1)) s"

definition digit_of :: "char \<Rightarrow> nat option" where
  "digit_of = map_of
     [(CHR ''0'', 0), (CHR ''1'', 1), (CHR ''2'', 2), (CHR ''3'', 3), (CHR ''4'', 4),
      (CHR ''5'', 5), (CHR ''6'', 6), (CHR ''7'', 7), (CHR ''8'', 8), (CHR ''9'', 9)]"

fun digits_value :: "nat \<Rightarrow> string \<Rightarrow> nat option" where
  "digits_value acc [] = Some acc"
| "digits_value acc (c # cs) =
     (case digit_of c of None \<Rightarrow> None | Some k \<Rightarrow> digits_value (10 * acc + k) cs)"

definition is_space :: "char \<Rightarrow> bool" where
  "is_space c \<longleftrightarrow> c = CHR '' '' \<or> c = CHR 0x09 \<or> c = CHR 0x0A \<or> c = CHR 0x0B
     \<or> c = CHR 0x0C \<or> c = CHR 0x0D"

definition cast_integer :: "string \<Rightarrow> pg_error + int" where
  "cast_integer s =
     (let t = rev (dropWhile is_space (rev (dropWhile is_space s)));
          (sign, body) =
            (case t of
               [] \<Rightarrow> (1, [])
             | c # r \<Rightarrow> if c = CHR ''-'' then (- 1, r) else if c = CHR ''+'' then (1, r) else (1, t))
      in if body = [] then Inl invalid_text_representation
         else case digits_value 0 body of
                None \<Rightarrow> Inl invalid_text_representation
              | Some n \<Rightarrow>
                  (let v = sign * int n
                   in if - (2 ^ 31) \<le> v \<and> v < 2 ^ 31 then Inr v
                      else Inl numeric_value_out_of_range))"

text \<open>\<open>MAX(CAST(... AS INTEGER))\<close> over the selected rows: the first failing cast aborts
  the query; over no rows the aggregate is \<open>NULL\<close>.\<close>

fun max_cast :: "string list \<Rightarrow> pg_error + int option" where
  "max_cast [] = Inr None"
| "max_cast (s # ss) =
     (case cast_integer s of
        Inl e \<Rightarrow> Inl e
      | Inr v \<Rightarrow>
          (case max_cast ss of
             Inl e \<Rightarrow> Inl e
           | Inr None \<Rightarrow> Inr (Some v)
           | Inr (Some w) \<Rightarrow> Inr (Some (max v w))))"

definition digit_char :: "nat \<Rightarrow> char" where
  "digit_char n = ''0123456789'' ! (n mod 10)"

function nat_to_text :: "nat \<Rightarrow> string" where
  "nat_to_text n = (if n < 10 then [digit_char n] else nat_to_text (n div 10) @ [digit_char n])"
  by pat_completeness auto
termination
  by (relation "measure id") auto

definition int_to_text :: "int \<Rightarrow> string" where
  "int_to_text i = (if i < 0 then CHR ''-'' # nat_to_text (nat (- i)) else nat_to_text (nat i))"

text \<open>\<open>LPAD(s, n, fill)\<close>: a string longer than \<open>n\<close> is cut to its first \<open>n\<close> characters.\<close>

definition lpad :: "string \<Rightarrow> nat \<Rightarrow> string \<Rightarrow> string" where
  "lpad s n fill =
     (if n \<le> length s then take n s
      else take (n - length s) (concat (replicate (n - length s) fill)) @ s)"

definition to_char_yymmdd :: "date \<Rightarrow> string" where
  "to_char_yymmdd d =
     [digit_char (d_year d div 10), digit_char (d_year d),
      digit_char (d_month d div 10), digit_char (d_month d),
      digit_char (d_day d div 10), digit_char (d_day d)]"

text \<open>\<open>v_seq INTEGER := COALESCE(MAX(...), 0) + 1\<close>, a 32-bit addition.\<close>

definition next_seq :: "int option \<Rightarrow> pg_error + int" where
  "next_seq m = (let s = coalesce m 0 + 1
                 in if s < 2 ^ 31 then Inr s else Inl numeric_value_out_of_range)"

text \<open>
  The result is \<open>None\<close> for SQL \<open>NULL\<close>: an unknown branch leaves \<open>v_branch_code\<close>
  \<open>NULL\<close>, and every string built from it is \<open>NULL\<close>.
\<close>

definition generate_transaction_number ::
  "branches list \<Rightarrow> transactions list \<Rightarrow> date \<Rightarrow> uuid \<Rightarrow> pg_error + string option" where
  "generate_transaction_number branches_tbl transactions_tbl current_date p_branch_id =
     (case find (\<lambda>b. br_id b = p_branch_id) branches_tbl of
        None \<Rightarrow> Inr None
      | Some b \<Rightarrow>
          (let v_branch_code = br_code b;
               v_date = to_char_yymmdd current_date
           in case max_cast
                     (map (\<lambda>t. substring_from (tx_transaction_number t)
                                  (int (length v_branch_code) + 8))
                        (filter (\<lambda>t. tx_branch_id t = p_branch_id
                                     \<and> tx_transaction_date t = current_date)
                           transactions_tbl)) of
                Inl e \<Rightarrow> Inl e
              | Inr m \<Rightarrow>
                  (case next_seq m of
                     Inl e \<Rightarrow> Inl e
                   | Inr v_seq \<Rightarrow>
                       Inr (Some (v_branch_code @ ''-'' @ v_date @ ''-''
                                    @ lpad (int_to_text v_seq) 4 ''0'')))))"

definition generate_work_order_number ::
  "branches list \<Rightarrow> work_orders list \<Rightarrow> date \<Rightarrow> uuid \<Rightarrow> pg_error + string option" where
  "generate_work_order_number branches_tbl work_orders_tbl current_date p_branch_id =
     (case find (\<lambda>b. br_id b = p_branch_id) branches_tbl of
        None \<Rightarrow> Inr None
      | Some b \<Rightarrow>
          (let v_branch_code = br_code b;
               v_date = to_char_yymmdd current_date
           in case max_cast
                     (map (\<lambda>t. substring_from (wo_work_order_number t)
                                  (int (length v_branch_code) + 11))
                        (filter (\<lambda>t. wo_branch_id t = p_branch_id
                                     \<and> map_option fst (wo_received_at t) = Some current_date)
                           work_orders_tbl)) of
                Inl e \<Rightarrow> Inl e
              | Inr m \<Rightarrow>
                  (case next_seq m of
                     Inl e \<Rightarrow> Inl e
                   | Inr v_seq \<Rightarrow>
                       Inr (Some (''WO-'' @ v_branch_code @ ''-'' @ v_date @ ''-''
                                    @ lpad (int_to_text v_seq) 4 ''0'')))))"

text \<open>Branch \<open>BR\<close> on 1 January 2025, with the documents numbered first on that day.\<close>

definition jan_1 :: date where
  "jan_1 = \<lparr>d_year = 2025, d_month = 1, d_day = 1\<rparr>"

definition branch_BR :: branches where
  "branch_BR = \<lparr>br_id = 1, br_code = ''BR''\<rparr>"

definition tx_0001 :: transactions where
  "tx_0001 = \<lparr>tx_id = 5, tx_branch_id = 1, tx_transaction_number = ''BR-250101-0001'',
               tx_transaction_date = jan_1\<rparr>"

definition tx_0000 :: transactions where
  "tx_0000 = \<lparr>tx_id = 6, tx_branch_id = 1, tx_transaction_number = ''BR-250101-0000'',
               tx_transaction_date = jan_1\<rparr>"

definition wo_0001 :: work_orders where
  "wo_0001 = \<lparr>wo_id = 9, wo_branch_id = 1, wo_work_order_number = ''WO-BR-250101-0001'',
               wo_received_at = Some (jan_1, 3600)\<rparr>"

section \<open>Audit recorder: the trigger function\<close>

text \<open>
  \<open>audit_trigger_func\<close> runs for each row of an audited table.  A row is given by the
  JSON value of each of its columns, so \<open>to_jsonb\<close> of a row of a table with columns
  \<open>cols\<close> is the object that pairs each column with its value; \<open>OLD\<close> and \<open>NEW\<close> are
  rows of the same table.  \<open>object -> key\<close> is \<open>None\<close> (SQL \<open>NULL\<close>) for a key the
  object does not have, and \<open>IS DISTINCT FROM\<close> is inequality that treats \<open>NULL\<close> as a
  value.
\<close>

datatype jsonb = jnull | jbool bool | jnumber rat | jstring string

type_synonym jsonb_object = "(string \<times> jsonb) list"
type_synonym table_row = "string \<Rightarrow> jsonb"

datatype tg_op = TG_INSERT table_row | TG_UPDATE table_row table_row | TG_DELETE table_row

record audit_logs =
  al_id :: uuid
  al_table_name :: string
  al_record_id :: jsonb
  al_action :: string
  al_old_data :: "jsonb_object option"
  al_new_data :: "jsonb_object option"
  al_changed_fields :: "string list option"
  al_user_id :: "uuid option"
  al_ip_address :: "string option"
  al_user_agent :: "string option"
  al_created_at :: "timestamptz option"

definition to_jsonb :: "string list \<Rightarrow> table_row \<Rightarrow> jsonb_object" where
  "to_jsonb cols r = map (\<lambda>c. (c, r c)) cols"

definition jsonb_arrow :: "jsonb_object \<Rightarrow> string \<Rightarrow> jsonb option" where
  "jsonb_arrow obj k = map_of obj k"

definition is_distinct_from :: "jsonb option \<Rightarrow> jsonb option \<Rightarrow> bool" where
  "is_distinct_from a b \<longleftrightarrow> a \<noteq> b"

text \<open>\<open>array_agg\<close> over no rows is \<open>NULL\<close>; \<open>array_length\<close> of \<open>NULL\<close> and of an
  empty array is \<open>NULL\<close>.\<close>

definition array_agg :: "'a list \<Rightarrow> 'a list option" where
  "array_agg xs = (if xs = [] then None else Some xs)"

definition array_length :: "'a list option \<Rightarrow> nat option" where
  "array_length a = (case a of None \<Rightarrow> None | Some xs \<Rightarrow> if xs = [] then None else Some (length xs))"

text \<open>
  \<open>SELECT array_agg(key) INTO changed_cols FROM jsonb_each(new_json) AS n(key, value)
   WHERE n.value IS DISTINCT FROM old_json->n.key\<close>.
\<close>

definition changed_cols :: "jsonb_object \<Rightarrow> jsonb_object \<Rightarrow> string list option" where
  "changed_cols old_json new_json =
     array_agg (map fst (filter (\<lambda>(key, val). is_distinct_from (Some val) (jsonb_arrow old_json key))
                           new_json))"

definition audit_row :: "uuid \<Rightarrow> timestamptz \<Rightarrow> string \<Rightarrow> jsonb \<Rightarrow> string \<Rightarrow> jsonb_object option \<Rightarrow>
    jsonb_object option \<Rightarrow> string list option \<Rightarrow> audit_logs" where
  "audit_row new_id now tbl rid action old_data new_data changed =
     \<lparr>al_id = new_id, al_table_name = tbl, al_record_id = rid, al_action = action,
      al_old_data = old_data, al_new_data = new_data, al_changed_fields = changed,
      al_user_id = None, al_ip_address = None, al_user_agent = None,
      al_created_at = Some now\<rparr>"

text \<open>
  The trigger function: \<open>tg_table_name\<close> and \<open>cols\<close> describe the table it is attached
  to, \<open>new_id\<close> and \<open>now\<close> are the defaults of \<open>audit_logs.id\<close> and
  \<open>audit_logs.created_at\<close>.  It returns the row it hands back and the audit log.
\<close>

definition audit_trigger_func ::
  "string \<Rightarrow> string list \<Rightarrow> uuid \<Rightarrow> timestamptz \<Rightarrow> tg_op \<Rightarrow> audit_logs list \<Rightarrow>
   table_row \<times> audit_logs list" where
  "audit_trigger_func tg_table_name cols new_id now op logs =
     (case op of
        TG_INSERT new \<Rightarrow>
          (new, logs @ [audit_row new_id now tg_table_name (new ''id'') ''INSERT''
                          None (Some (to_jsonb cols new)) None])
      | TG_UPDATE old new \<Rightarrow>
          (let old_json = to_jsonb cols old;
               new_json = to_jsonb cols new;
               changed = changed_cols old_json new_json
           in if changed \<noteq> None \<and> (case array_length changed of None \<Rightarrow> False | Some n \<Rightarrow> 0 < n)
              then (new, logs @ [audit_row new_id now tg_table_name (new ''id'') ''UPDATE''
                                   (Some old_json) (Some new_json) changed])
              else (new, logs))
      | TG_DELETE old \<Rightarrow>
          (old, logs @ [audit_row new_id now tg_table_name (old ''id'') ''DELETE''
                          (Some (to_jsonb cols old)) None None]))"

text \<open>The set of names in \<open>changed_cols\<close>: empty for \<open>NULL\<close>.\<close>

definition changed_set :: "string list option \<Rightarrow> string set" where
  "changed_set a = (case a of None \<Rightarrow> {} | Some cs \<Rightarrow> set cs)"

section \<open>Point of sale: cart, totals and payment\<close>

text \<open>
  The \<open>POS\<close> module of the frontend.  A JavaScript number is a binary64 value: a
  rational, with every arithmetic result rounded to the nearest representable value, ties
  to even.  The model covers finite values (prices are \<open>DECIMAL(15,2)\<close> amounts and
  stay far below \<open>2 ^ 1024\<close>); \<open>NaN\<close> appears only as the result of \<open>Number(...)\<close> on
  the payment input, where the code replaces it by 0.  A quantity is a counter that starts
  at 1 and changes by 1, an integer.
\<close>

definition round_half_even :: "rat \<Rightarrow> int" where
  "round_half_even x =
     (let f = \<lfloor>x\<rfloor>; r = x - of_int f
      in if r < 1 / 2 then f else if 1 / 2 < r then f + 1 else if even f then f else f + 1)"

definition pow2 :: "int \<Rightarrow> rat" where
  "pow2 e = (if 0 \<le> e then 2 ^ nat e else 1 / 2 ^ nat (- e))"

text \<open>\<open>ilog2 a\<close> is the binary exponent of a positive \<open>a\<close>: \<open>2 ^ e \<le> a < 2 ^ (e + 1)\<close>.\<close>

definition ilog2 :: "rat \<Rightarrow> int" where
  "ilog2 a = (let (p, q) = quotient_of a; e = bitlen p - bitlen q
              in if pow2 e \<le> a then e else e - 1)"

text \<open>Rounding to binary64: 53 significant bits, subnormal below \<open>2 ^ - 1022\<close>.\<close>

definition binary64 :: "rat \<Rightarrow> rat" where
  "binary64 x =
     (if x = 0 then 0
      else let a = \<bar>x\<bar>;
               q = max (ilog2 a) (- 1022) - 52;
               m = round_half_even (a / pow2 q)
           in sgn x * of_int m * pow2 q)"

definition js_add :: "rat \<Rightarrow> rat \<Rightarrow> rat" where
  "js_add a b = binary64 (a + b)"

definition js_sub :: "rat \<Rightarrow> rat \<Rightarrow> rat" where
  "js_sub a b = binary64 (a - b)"

definition js_mul :: "rat \<Rightarrow> rat \<Rightarrow> rat" where
  "js_mul a b = binary64 (a * b)"

text \<open>\<open>Number(v)\<close> of a decimal value, and \<open>Number(v) || 0\<close> of an input that may not parse.\<close>

definition Number :: "rat \<Rightarrow> rat" where
  "Number v = binary64 v"

definition number_or_zero :: "rat option \<Rightarrow> rat" where
  "number_or_zero v = (case v of None \<Rightarrow> 0 | Some x \<Rightarrow> Number x)"

record product =
  p_id :: string
  p_name :: string
  p_selling_price :: rat
  p_type :: string

record cart_item =
  ci_id :: string
  ci_name :: string
  ci_price :: rat
  ci_quantity :: int
  ci_type :: string

record payment_method =
  pm_id :: string
  pm_code :: string
  pm_name :: string

record totals =
  subtotal :: rat
  discount :: rat
  tax :: rat
  total :: rat

record transaction_item =
  ti_item_id :: string
  ti_quantity :: int
  ti_unit_price :: rat

record payment =
  pay_payment_method_id :: string
  pay_amount :: rat

record transaction_data =
  td_items :: "transaction_item list"
  td_payments :: "payment list"
  td_customer_id :: "string option"

text \<open>
  The state of the module, with two logs beside it: the toasts shown and the requests
  handed to \<open>API.transactions.create\<close>.
\<close>

record pos =
  products :: "product list"
  cart :: "cart_item list"
  selectedCustomer :: "string option"
  toasts :: "(string \<times> string) list"
  created :: "transaction_data list"

definition toast :: "string \<Rightarrow> string \<Rightarrow> pos \<Rightarrow> pos" where
  "toast msg kind st = st\<lparr>toasts := toasts st @ [(msg, kind)]\<rparr>"

text \<open>\<open>xs.find(P)\<close> followed by an assignment to a field of the item found changes the
  first matching element in place.\<close>

fun update_first :: "('a \<Rightarrow> bool) \<Rightarrow> ('a \<Rightarrow> 'a) \<Rightarrow> 'a list \<Rightarrow> 'a list" where
  "update_first P f [] = []"
| "update_first P f (x # xs) = (if P x then f x # xs else x # update_first P f xs)"

definition addToCart :: "string \<Rightarrow> pos \<Rightarrow> pos" where
  "addToCart productId st =
     (case find (\<lambda>p. p_id p = productId) (products st) of
        None \<Rightarrow> st
      | Some product \<Rightarrow>
          toast (''Added '' @ p_name product) ''success''
            (case find (\<lambda>item. ci_id item = productId) (cart st) of
               Some existingItem \<Rightarrow>
                 st\<lparr>cart := update_first (\<lambda>item. ci_id item = productId)
                               (\<lambda>item. item\<lparr>ci_quantity := ci_quantity item + 1\<rparr>) (cart st)\<rparr>
             | None \<Rightarrow>
                 st\<lparr>cart := cart st @
                      [\<lparr>ci_id = p_id product, ci_name = p_name product,
                        ci_price = Number (p_selling_price product), ci_quantity = 1,
                        ci_type = p_type product\<rparr>]\<rparr>))"

definition removeFromCart :: "string \<Rightarrow> pos \<Rightarrow> pos" where
  "removeFromCart itemId st = st\<lparr>cart := filter (\<lambda>i. ci_id i \<noteq> itemId) (cart st)\<rparr>"

definition updateQuantity :: "string \<Rightarrow> string \<Rightarrow> pos \<Rightarrow> pos" where
  "updateQuantity itemId action st =
     (case find (\<lambda>i. ci_id i = itemId) (cart st) of
        None \<Rightarrow> st
      | Some item \<Rightarrow>
          if action = ''increase''
          then st\<lparr>cart := update_first (\<lambda>i. ci_id i = itemId)
                             (\<lambda>i. i\<lparr>ci_quantity := ci_quantity i + 1\<rparr>) (cart st)\<rparr>
          else if action = ''decrease''
          then (let st' = st\<lparr>cart := update_first (\<lambda>i. ci_id i = itemId)
                                        (\<lambda>i. i\<lparr>ci_quantity := ci_quantity i - 1\<rparr>) (cart st)\<rparr>
                in if ci_quantity item - 1 \<le> 0 then removeFromCart itemId st' else st')
          else st)"

definition clearCart :: "pos \<Rightarrow> pos" where
  "clearCart st = st\<lparr>cart := [], selectedCustomer := None\<rparr>"

text \<open>Every item of the cart has a quantity of at least 1.\<close>

definition cart_ok :: "cart_item list \<Rightarrow> bool" where
  "cart_ok items \<longleftrightarrow> list_all (\<lambda>i. 1 \<le> ci_quantity i) items"

text \<open>\<open>this.cart.reduce((sum, item) => sum + (item.price * item.quantity), 0)\<close>,
  \<open>subtotal * 0.1\<close> and \<open>subtotal - discount + tax\<close>.\<close>

definition calculateTotals :: "cart_item list \<Rightarrow> totals" where
  "calculateTotals items =
     (let subtotal = foldl (\<lambda>sum item. js_add sum (js_mul (ci_price item) (of_int (ci_quantity item))))
                       0 items;
          discount = 0;
          tax = js_mul subtotal (Number (1 / 10));
          total = js_add (js_sub subtotal discount) tax
      in \<lparr>subtotal = subtotal, discount = discount, tax = tax, total = total\<rparr>)"

text \<open>
  The totals as the specification words them, in exact arithmetic: the sum over the items
  of price times quantity, a tenth of it as tax, and subtotal - discount + tax.  An item is
  whole when its price is a whole, non-negative amount and its quantity is not negative.
\<close>

definition whole_item :: "cart_item \<Rightarrow> bool" where
  "whole_item item \<longleftrightarrow> 0 \<le> ci_price item \<and> ci_price item \<in> \<int> \<and> 0 \<le> ci_quantity item"

definition exact_subtotal :: "cart_item list \<Rightarrow> rat" where
  "exact_subtotal items = sum_list (map (\<lambda>item. ci_price item * of_int (ci_quantity item)) items)"

definition exact_totals :: "cart_item list \<Rightarrow> totals" where
  "exact_totals items =
     \<lparr>subtotal = exact_subtotal items, discount = 0, tax = exact_subtotal items / 10,
      total = exact_subtotal items - 0 + exact_subtotal items / 10\<rparr>"

text \<open>The listener on the amount field: \<open>Math.max(0, received - totals.total)\<close>.\<close>

definition payment_change :: "totals \<Rightarrow> rat option \<Rightarrow> rat" where
  "payment_change tot input = (let received = number_or_zero input
                               in max 0 (js_sub received (total tot)))"

text \<open>
  \<open>completePayment\<close>: \<open>input\<close> is \<open>Number(...)\<close> of the amount field (\<open>None\<close> for
  \<open>NaN\<close>), \<open>api_error\<close> is the error \<open>API.transactions.create\<close> throws, if it throws
  (its message may be empty).
\<close>

definition completePayment ::
  "payment_method \<Rightarrow> totals \<Rightarrow> rat option \<Rightarrow> string option \<Rightarrow> pos \<Rightarrow> pos" where
  "completePayment paymentMethod tot input api_error st =
     (let received = number_or_zero input
      in if received < total tot
         then toast ''Insufficient payment amount'' ''error'' st
         else (let transactionData =
                     \<lparr>td_items = map (\<lambda>item. \<lparr>ti_item_id = ci_id item, ti_quantity = ci_quantity item,
                                               ti_unit_price = ci_price item\<rparr>) (cart st),
                      td_payments = [\<lparr>pay_payment_method_id = pm_id paymentMethod,
                                       pay_amount = total tot\<rparr>],
                      td_customer_id = selectedCustomer st\<rparr>
               in case api_error of
                    None \<Rightarrow>
                      toast ''Payment completed successfully!'' ''success''
                        (clearCart (st\<lparr>created := created st @ [transactionData]\<rparr>))
                  | Some msg \<Rightarrow>
                      toast (if msg = [] then ''Payment failed'' else msg) ''error'' st))"

text \<open>The products of the demonstration data, and a cart with two units of the first.\<close>

definition coffee_latte :: product where
  "coffee_latte = \<lparr>p_id = ''1'', p_name = ''Coffee Latte'', p_selling_price = 25000,
                    p_type = ''product''\<rparr>"

definition two_lattes :: "cart_item list" where
  "two_lattes = [\<lparr>ci_id = ''1'', ci_name = ''Coffee Latte'', ci_price = 25000, ci_quantity = 2,
                   ci_type = ''product''\<rparr>]"

text \<open>A cart with one item at a whole price that is not a multiple of 10.\<close>

definition one_at_33 :: "cart_item list" where
  "one_at_33 = [\<lparr>ci_id = ''9'', ci_name = ''Sticker'', ci_price = 33, ci_quantity = 1,
                  ci_type = ''product''\<rparr>]"

definition pos_two_lattes :: pos where
  "pos_two_lattes = \<lparr>products = [coffee_latte], cart = two_lattes, selectedCustomer = None,
                      toasts = [], created = []\<rparr>"

definition cash :: payment_method where
  "cash = \<lparr>pm_id = ''1'', pm_code = ''cash'', pm_name = ''Cash''\<rparr>"

section \<open>Lemmas on the stock ledger\<close>

lemma find_map_keep:
  assumes "\<And>r. P (f r) = P r"
  shows "find P (map f rs) = map_option f (find P rs)"
  using assms by (induction rs) auto

lemma find_append_new:
  "find P rs = None \<Longrightarrow> P r \<Longrightarrow> find P (rs @ [r]) = Some r"
  by (induction rs) (auto split: if_splits)

lemma find_Some_mem: "find P xs = Some x \<Longrightarrow> x \<in> set xs \<and> P x"
  by (induction xs) (auto split: if_splits)

lemma round_half_away_of_int: "round_half_away (of_int n) = n"
proof -
  have "\<lfloor>(of_int n :: rat) + 1 / 2\<rfloor> = n" by (intro floor_unique) simp_all
  moreover have "\<lfloor>- (of_int n :: rat) + 1 / 2\<rfloor> = - n"
    by (intro floor_unique) simp_all
  ultimately show ?thesis by (simp add: round_half_away_def)
qed

lemma to_decimal_15_3_round:
  "to_decimal_15_3 x = Inr n \<Longrightarrow> n = round_half_away (x * 1000) \<and> \<bar>n\<bar> < 10 ^ 15"
  by (auto simp: to_decimal_15_3_def Let_def split: if_splits)

lemma to_decimal_15_3_dec3:
  "to_decimal_15_3 (dec3 n) = (if \<bar>n\<bar> < 10 ^ 15 then Inr n else Inl numeric_value_out_of_range)"
  by (simp add: to_decimal_15_3_def dec3_def round_half_away_of_int)

lemma to_decimal_15_3_zero: "to_decimal_15_3 0 = Inr 0"
  using to_decimal_15_3_dec3[of 0] by (simp add: dec3_def)

lemma dec3_diff: "dec3 a - dec3 b = dec3 (a - b)"
  by (simp add: dec3_def diff_divide_distrib)

lemma dec3_add: "dec3 a + dec3 b = dec3 (a + b)"
  by (simp add: dec3_def add_divide_distrib)

lemma store_generated_Inr:
  "store_generated r = Inr r' \<Longrightarrow>
     r' = r\<lparr>inv_available_quantity := inv_quantity r - inv_reserved_quantity r\<rparr>"
  by (auto simp: store_generated_def dec3_diff to_decimal_15_3_dec3 split: if_splits)



lemma update_row_Inr:
  "update_row x now r = Inr r' \<Longrightarrow> r' = written_row (round_half_away (x * 1000)) now r"
  by (auto simp: update_row_def written_row_def split: sum.splits
        dest!: store_generated_Inr to_decimal_15_3_round)


lemma update_rows_Inr:
  "update_rows k x now rows = Inr rows' \<Longrightarrow>
     rows' = map (\<lambda>r. if inv_id r = k then written_row (round_half_away (x * 1000)) now r else r) rows"
  by (induction rows arbitrary: rows')
     (auto split: sum.splits if_splits dest: update_row_Inr)


lemma update_inventory_quantity_Inr:
  "update_inventory_quantity k x now d = Inr d2 \<Longrightarrow>
     d2 = d\<lparr>inventory_tbl :=
             map (\<lambda>r. if inv_id r = k then written_row (round_half_away (x * 1000)) now r else r)
               (inventory_tbl d)\<rparr>"
  by (auto simp: update_inventory_quantity_def split: sum.splits dest: update_rows_Inr)

lemma key_match_written [simp]:
  "inventory_key_match w i v (written_row n now r) = inventory_key_match w i v r"
  by (simp add: inventory_key_match_def written_row_def)

lemma select_after_update:
  assumes "update_inventory_quantity k x now d = Inr d2"
  shows "select_inventory w i v d2 =
     map_option (\<lambda>r. if inv_id r = k then written_row (round_half_away (x * 1000)) now r else r)
       (select_inventory w i v d)"
  unfolding update_inventory_quantity_Inr[OF assms] select_inventory_def
  by (simp add: find_map_keep)

lemma insert_stock_movement_Inr:
  assumes "insert_stock_movement w i v mt rt ri q uc b a u now d = Inr (mid, d')"
  shows "\<exists>m. d' = d\<lparr>stock_movements_tbl := stock_movements_tbl d @ [m],
                       uuid_supply := Suc (uuid_supply d)\<rparr> \<and>
             sm_id m = mid \<and> sm_warehouse_id m = w \<and> sm_item_id m = i \<and> sm_variant_id m = v \<and>
             sm_movement_type m = mt \<and> sm_reference_id m = ri \<and> sm_created_by m = u \<and>
             to_decimal_15_3 q = Inr (sm_quantity m) \<and>
             to_decimal_15_3 b = Inr (sm_quantity_before m) \<and>
             to_decimal_15_3 a = Inr (sm_quantity_after m) \<and>
             (case uc of None \<Rightarrow> sm_unit_cost m = None
              | Some c \<Rightarrow> \<exists>k. to_decimal_15_4 c = Inr k \<and> sm_unit_cost m = Some k)"
  using assms
  by (auto simp: insert_stock_movement_def Let_def split: sum.splits option.splits if_splits)


lemma insert_inventory_Inr:
  assumes "insert_inventory w i v now d = Inr (k, d')"
  shows "k = uuid_supply d \<and>
         d' = d\<lparr>inventory_tbl := inventory_tbl d @
                  [\<lparr>inv_id = uuid_supply d, inv_warehouse_id = w, inv_item_id = i,
                    inv_variant_id = v, inv_quantity = 0, inv_reserved_quantity = 0,
                    inv_available_quantity = 0, inv_avg_cost = Some 0,
                    inv_last_restock_at = None, inv_last_sold_at = None,
                    inv_created_at = Some now, inv_updated_at = Some now\<rparr>],
                uuid_supply := Suc (uuid_supply d)\<rparr>"
  using assms
  by (auto simp: insert_inventory_def Let_def split: sum.splits if_splits dest!: store_generated_Inr)


lemma update_inventory_steps:
  assumes "update_inventory w i v q mt rt ri uc u now d = Inr (mid, d')"
  obtains k b d1 d2 where
    "case select_inventory w i v d of
       Some r \<Rightarrow> k = inv_id r \<and> b = inv_quantity r \<and> d1 = d
     | None \<Rightarrow> insert_inventory w i v now d = Inr (k, d1) \<and> b = 0"
    "update_inventory_quantity k (dec3 b + q) now d1 = Inr d2"
    "insert_stock_movement w i v mt rt ri q uc (dec3 b) (dec3 b + q) u now d2 = Inr (mid, d')"
proof (cases "select_inventory w i v d")
  case None
  with assms obtain k d1 d2 where
    "insert_inventory w i v now d = Inr (k, d1)"
    "update_inventory_quantity k (0 + q) now d1 = Inr d2"
    "insert_stock_movement w i v mt rt ri q uc 0 (0 + q) u now d2 = Inr (mid, d')"
    by (auto simp: update_inventory_def Let_def split: sum.splits)
  with None show ?thesis
    by (intro that[where b = 0]) (auto simp: dec3_def)
next
  case (Some r)
  with assms obtain d2 where
    "update_inventory_quantity (inv_id r) (dec3 (inv_quantity r) + q) now d = Inr d2"
    "insert_stock_movement w i v mt rt ri q uc (dec3 (inv_quantity r)) (dec3 (inv_quantity r) + q) u now d2
       = Inr (mid, d')"
    by (auto simp: update_inventory_def Let_def split: sum.splits)
  with Some show ?thesis
    by (intro that[where b = "inv_quantity r"]) auto
qed

lemma update_inventory_Inr:
  assumes "update_inventory w i v q mt rt ri uc u now d = Inr (mid, d')"
  shows "\<exists>m r. stock_movements_tbl d' = stock_movements_tbl d @ [m] \<and>
           sm_id m = mid \<and> sm_warehouse_id m = w \<and> sm_item_id m = i \<and> sm_variant_id m = v \<and>
           sm_quantity_before m = qty_before w i v d \<and>
           sm_quantity_after m = round_half_away ((dec3 (qty_before w i v d) + q) * 1000) \<and>
           sm_quantity m = round_half_away (q * 1000) \<and>
           sm_unit_cost m = map_option (\<lambda>c. round_half_away (c * 10000)) uc \<and>
           select_inventory w i v d' = Some r \<and>
           inv_quantity r = sm_quantity_after m \<and>
           inv_available_quantity r = inv_quantity r - inv_reserved_quantity r \<and>
           inv_avg_cost r = coalesce (avg_cost_of w i v d) (Some 0)"
proof -
  from assms obtain k b d1 d2 where
    sel: "case select_inventory w i v d of
       Some r \<Rightarrow> k = inv_id r \<and> b = inv_quantity r \<and> d1 = d
     | None \<Rightarrow> insert_inventory w i v now d = Inr (k, d1) \<and> b = 0"
    and upd: "update_inventory_quantity k (dec3 b + q) now d1 = Inr d2"
    and ins: "insert_stock_movement w i v mt rt ri q uc (dec3 b) (dec3 b + q) u now d2 = Inr (mid, d')"
    by (rule update_inventory_steps)
  have b: "b = qty_before w i v d"
    using sel by (auto simp: qty_before_def quantity_on_hand_def coalesce_def split: option.splits)
  let ?n = "round_half_away ((dec3 b + q) * 1000)"
  from insert_stock_movement_Inr[OF ins] obtain m where
    d': "d' = d2\<lparr>stock_movements_tbl := stock_movements_tbl d2 @ [m],
                  uuid_supply := Suc (uuid_supply d2)\<rparr>"
    and m: "sm_id m = mid" "sm_warehouse_id m = w" "sm_item_id m = i" "sm_variant_id m = v"
      "to_decimal_15_3 q = Inr (sm_quantity m)"
      "to_decimal_15_3 (dec3 b) = Inr (sm_quantity_before m)"
      "to_decimal_15_3 (dec3 b + q) = Inr (sm_quantity_after m)"
    and c: "case uc of None \<Rightarrow> sm_unit_cost m = None
              | Some c \<Rightarrow> \<exists>k. to_decimal_15_4 c = Inr k \<and> sm_unit_cost m = Some k"
    by blast
  have mb: "sm_quantity_before m = b"
    using m(6) by (simp add: to_decimal_15_3_dec3 split: if_splits)
  have ma: "sm_quantity_after m = ?n" and mq: "sm_quantity m = round_half_away (q * 1000)"
    using m(5,7) by (auto dest: to_decimal_15_3_round)
  have mc: "sm_unit_cost m = map_option (\<lambda>c. round_half_away (c * 10000)) uc"
    using c by (auto simp: to_decimal_15_4_def Let_def split: option.splits if_splits)
  have mv1: "stock_movements_tbl d1 = stock_movements_tbl d"
    using sel by (auto split: option.splits dest!: insert_inventory_Inr)
  have mv2: "stock_movements_tbl d2 = stock_movements_tbl d1"
    using update_inventory_quantity_Inr[OF upd] by simp
  have mv: "stock_movements_tbl d' = stock_movements_tbl d @ [m]"
    by (simp add: d' mv1 mv2)
  have "\<exists>r0. select_inventory w i v d1 = Some r0 \<and> inv_id r0 = k \<and>
          inv_avg_cost r0 = coalesce (avg_cost_of w i v d) (Some 0)"
  proof (cases "select_inventory w i v d")
    case None
    with sel have "insert_inventory w i v now d = Inr (k, d1)" by simp
    from insert_inventory_Inr[OF this] None show ?thesis
      by (simp add: select_inventory_def find_append_new inventory_key_match_def
            avg_cost_of_def coalesce_def)
  next
    case (Some r)
    with sel show ?thesis by (simp add: avg_cost_of_def coalesce_def)
  qed
  then obtain r0 where r0: "select_inventory w i v d1 = Some r0" "inv_id r0 = k"
    "inv_avg_cost r0 = coalesce (avg_cost_of w i v d) (Some 0)" by blast
  have s2: "select_inventory w i v d2 = Some (written_row ?n now r0)"
    using select_after_update[OF upd, of w i v] r0 by simp
  have s': "select_inventory w i v d' = Some (written_row ?n now r0)"
    using s2 by (simp add: d' select_inventory_def)
  show ?thesis
    using mv m(1-4) mb ma mq mc s' r0(3) b
    by (intro exI[of _ m] exI[of _ "written_row ?n now r0"]) (simp add: written_row_def)
qed


lemma update_inventory_rows:
  assumes "update_inventory w i v q mt rt ri uc u now d = Inr (mid, d')"
    and "r \<in> set (inventory_tbl d')"
  shows "r \<in> set (inventory_tbl d) \<or>
         inv_available_quantity r = inv_quantity r - inv_reserved_quantity r"
proof -
  from assms(1) obtain k b d1 d2 where
    sel: "case select_inventory w i v d of
       Some r \<Rightarrow> k = inv_id r \<and> b = inv_quantity r \<and> d1 = d
     | None \<Rightarrow> insert_inventory w i v now d = Inr (k, d1) \<and> b = 0"
    and upd: "update_inventory_quantity k (dec3 b + q) now d1 = Inr d2"
    and ins: "insert_stock_movement w i v mt rt ri q uc (dec3 b) (dec3 b + q) u now d2 = Inr (mid, d')"
    by (rule update_inventory_steps)
  have t': "inventory_tbl d' = inventory_tbl d2"
    using insert_stock_movement_Inr[OF ins] by auto
  have 1: "\<forall>r\<in>set (inventory_tbl d1). r \<in> set (inventory_tbl d) \<or>
         inv_available_quantity r = inv_quantity r - inv_reserved_quantity r"
    using sel by (auto split: option.splits dest!: insert_inventory_Inr)
  from assms(2) obtain r1 where r1: "r1 \<in> set (inventory_tbl d1)"
    "r = (if inv_id r1 = k then written_row (round_half_away ((dec3 b + q) * 1000)) now r1 else r1)"
    unfolding t' update_inventory_quantity_Inr[OF upd] by auto
  show ?thesis
  proof (cases "inv_id r1 = k")
    case True
    with r1 show ?thesis by (simp add: written_row_def)
  next
    case False
    with r1 1 show ?thesis by auto
  qed
qed











lemma one_row_select:
  "select_inventory 7 8 None one_row_db = Some (hd (inventory_tbl one_row_db))"
  by (simp add: select_inventory_def one_row_db_def inventory_key_match_def coalesce_def)

lemma one_row_qty_before: "qty_before 7 8 None one_row_db = 10000"
  by (simp add: qty_before_def quantity_on_hand_def one_row_select coalesce_def)
     (simp add: one_row_db_def)





section \<open>The stock ledger and its claims\<close>




text \<open>
  C2.  The column \<open>avg_cost\<close> is the weighted average cost, and the claim is that a
  receipt brings it up to date.  The function does not: a receipt of 10 at unit cost 4
  against 10 on hand at average cost 2 takes the quantity to 20 and records the unit cost
  on the movement, and leaves the average cost at 2 where the weighted average is 3.
\<close>

theorem update_inventory_avg_cost_stale:
  "quantity_on_hand 7 8 None one_row_db = Some 10000 \<and>
   avg_cost_of 7 8 None one_row_db = Some (Some 20000) \<and>
   weighted_avg_cost (dec3 10000) (dec4 20000) 10 4 = 3 \<and>
   quantity_on_hand 7 8 None (apply_call (stock_call 10 mt_in (Some 4)) one_row_db) = Some 20000 \<and>
   avg_cost_of 7 8 None (apply_call (stock_call 10 mt_in (Some 4)) one_row_db) = Some (Some 20000) \<and>
   sm_unit_cost (last (stock_movements_tbl (apply_call (stock_call 10 mt_in (Some 4)) one_row_db)))
     = Some 40000 \<and>
   dec4 20000 \<noteq> 3"
  by code_simp




text \<open>
  C9.  After \<open>update_inventory\<close>, every inventory row the call wrote (any row that is
  not as it was before the call) has \<open>available_quantity = quantity - reserved_quantity\<close>,
  and so has the row of the key of a call that completes, whose quantity is the new one.
\<close>

theorem available_quantity_generated:
  "(\<forall>r\<in>set (inventory_tbl (outcome_db d (update_inventory w i v q mt rt ri uc u now d))).
      r \<in> set (inventory_tbl d) \<or>
      inv_available_quantity r = inv_quantity r - inv_reserved_quantity r)
   \<and> (update_inventory w i v q mt rt ri uc u now d = Inr (mid, d') \<longrightarrow>
        (\<exists>r. select_inventory w i v d' = Some r \<and>
             inv_quantity r = round_half_away ((dec3 (qty_before w i v d) + q) * 1000) \<and>
             inv_available_quantity r = inv_quantity r - inv_reserved_quantity r))"
proof (intro conjI impI ballI)
  fix r
  assume r: "r \<in> set (inventory_tbl (outcome_db d (update_inventory w i v q mt rt ri uc u now d)))"
  show "r \<in> set (inventory_tbl d) \<or>
      inv_available_quantity r = inv_quantity r - inv_reserved_quantity r"
  proof (cases "update_inventory w i v q mt rt ri uc u now d")
    case (Inl e)
    with r show ?thesis by (simp add: outcome_db_def)
  next
    case (Inr res)
    obtain k e where "res = (k, e)" by (cases res)
    with Inr r update_inventory_rows[of w i v q mt rt ri uc u now d k e r] show ?thesis
      by (simp add: outcome_db_def)
  qed
next
  assume "update_inventory w i v q mt rt ri uc u now d = Inr (mid, d')"
  from update_inventory_Inr[OF this]
  show "\<exists>r. select_inventory w i v d' = Some r \<and>
             inv_quantity r = round_half_away ((dec3 (qty_before w i v d) + q) * 1000) \<and>
             inv_available_quantity r = inv_quantity r - inv_reserved_quantity r"
    by auto
qed

text \<open>A sale of 3 on the one-row database rewrites its row: 7 on hand, 7 available.\<close>

theorem available_quantity_generated_witness:
  "call_result (stock_call (- 3) mt_sale None) one_row_db
     = Inr (2, apply_call (stock_call (- 3) mt_sale None) one_row_db) \<and>
   hd (inventory_tbl (apply_call (stock_call (- 3) mt_sale None) one_row_db))
     \<in> set (inventory_tbl (apply_call (stock_call (- 3) mt_sale None) one_row_db)) \<and>
   hd (inventory_tbl (apply_call (stock_call (- 3) mt_sale None) one_row_db))
     \<notin> set (inventory_tbl one_row_db) \<and>
   inv_available_quantity (hd (inventory_tbl (apply_call (stock_call (- 3) mt_sale None) one_row_db)))
     = inv_quantity (hd (inventory_tbl (apply_call (stock_call (- 3) mt_sale None) one_row_db)))
       - inv_reserved_quantity
           (hd (inventory_tbl (apply_call (stock_call (- 3) mt_sale None) one_row_db))) \<and>
   quantity_on_hand 7 8 None (apply_call (stock_call (- 3) mt_sale None) one_row_db) = Some 7000"
proof -
  let ?d = "apply_call (stock_call (- 3) mt_sale None) one_row_db"
  have res: "call_result (stock_call (- 3) mt_sale None) one_row_db = Inr (2, ?d)"
    by code_simp
  then have res': "update_inventory 7 8 None (- 3) mt_sale (Some ''transaction'') (Some 40)
      None (Some 5) 1 one_row_db = Inr (2, ?d)"
    by (simp add: call_result_def stock_call_def)
  have m: "hd (inventory_tbl ?d) \<in> set (inventory_tbl ?d)"
    by code_simp
  have n: "hd (inventory_tbl ?d) \<notin> set (inventory_tbl one_row_db)"
    by code_simp
  have r: "round_half_away ((dec3 (qty_before 7 8 None one_row_db) + (- 3)) * 1000) = 7000"
    by code_simp
  have o: "outcome_db one_row_db
      (update_inventory 7 8 None (- 3) mt_sale (Some ''transaction'') (Some 40) None (Some 5) 1 one_row_db)
      = ?d"
    by (simp add: apply_call_def call_result_def stock_call_def)
  note t = available_quantity_generated[of one_row_db 7 8 None "- 3" mt_sale "Some ''transaction''"
      "Some 40" None "Some 5" 1 2 ?d]
  note t1 = t[THEN conjunct1, unfolded o, rule_format, OF m]
  from t1 n have a: "inv_available_quantity (hd (inventory_tbl ?d))
     = inv_quantity (hd (inventory_tbl ?d)) - inv_reserved_quantity (hd (inventory_tbl ?d))"
    by blast
  from t[THEN conjunct2, THEN mp, OF res'] obtain row :: inventory where
    "select_inventory 7 8 None ?d = Some row"
    "inv_quantity row = round_half_away ((dec3 (qty_before 7 8 None one_row_db) + (- 3)) * 1000)"
    by blast
  then have oh: "quantity_on_hand 7 8 None ?d = Some 7000"
    unfolding r by (simp add: quantity_on_hand_def)
  show ?thesis using res m n a oh by blast
qed

section \<open>The sequence generator and its claim\<close>

text \<open>
  C4.  The first number of a day is \<open><code>-<YYMMDD>-0001\<close>.  From then on the claim
  and the code part: \<open>SUBSTRING\<close> starts one character early, at the hyphen before the
  digits, so the suffix \<open>-0001\<close> is read as \<open>- 1\<close>, the maximum plus one is 0 and the
  second number of the day is \<open>...-0000\<close>, not \<open>...-0002\<close>; the third is \<open>...-0001\<close>
  again.  Work-order numbers do the same.
\<close>

theorem generate_number_second_of_day:
  "generate_transaction_number [branch_BR] [] jan_1 1 = Inr (Some ''BR-250101-0001'') \<and>
   generate_transaction_number [branch_BR] [tx_0001] jan_1 1 = Inr (Some ''BR-250101-0000'') \<and>
   generate_transaction_number [branch_BR] [tx_0001, tx_0000] jan_1 1
     = Inr (Some ''BR-250101-0001'') \<and>
   generate_work_order_number [branch_BR] [] jan_1 1 = Inr (Some ''WO-BR-250101-0001'') \<and>
   generate_work_order_number [branch_BR] [wo_0001] jan_1 1 = Inr (Some ''WO-BR-250101-0000'')"
  by code_simp

section \<open>The audit recorder and its claim\<close>

lemma map_of_to_jsonb: "c \<in> set cols \<Longrightarrow> map_of (to_jsonb cols r) c = Some (r c)"
  unfolding to_jsonb_def by (induction cols) auto

lemma changed_filter:
  "map fst (filter (\<lambda>(key, val). is_distinct_from (Some val) (jsonb_arrow (to_jsonb cols old) key))
                           (to_jsonb cols new)) = filter (\<lambda>c. old c \<noteq> new c) cols"
proof -
  have "map fst (filter (\<lambda>(key, val). is_distinct_from (Some val) (jsonb_arrow (to_jsonb cols old) key))
                           (to_jsonb cols new))
        = filter (\<lambda>c. Some (new c) \<noteq> map_of (to_jsonb cols old) c) cols"
    by (simp add: to_jsonb_def filter_map comp_def is_distinct_from_def jsonb_arrow_def)
  also have "\<dots> = filter (\<lambda>c. old c \<noteq> new c) cols"
    by (rule filter_cong) (auto simp: map_of_to_jsonb)
  finally show ?thesis .
qed

lemma changed_cols_rows:
  "changed_cols (to_jsonb cols old) (to_jsonb cols new) = array_agg (filter (\<lambda>c. old c \<noteq> new c) cols)"
  by (simp only: changed_cols_def changed_filter)

lemma sym_diff_rows:
  "fst ` ((set (to_jsonb cols old) - set (to_jsonb cols new)) \<union> (set (to_jsonb cols new) - set (to_jsonb cols old)))
     = {c \<in> set cols. old c \<noteq> new c}"
  by (auto simp: to_jsonb_def image_iff) force+

text \<open>
  C8.  For an \<open>UPDATE\<close> the changed fields are exactly the columns whose value differs
  between \<open>OLD\<close> and \<open>NEW\<close>, which are the keys of the symmetric difference of the two
  snapshots; when no column differs the audit log is left as it was, and otherwise one row
  is appended that holds both snapshots and those columns.
\<close>

theorem audit_update_changed_fields:
  "changed_set (changed_cols (to_jsonb cols old) (to_jsonb cols new)) = {c \<in> set cols. old c \<noteq> new c}
   \<and> changed_set (changed_cols (to_jsonb cols old) (to_jsonb cols new))
       = fst ` ((set (to_jsonb cols old) - set (to_jsonb cols new))
                \<union> (set (to_jsonb cols new) - set (to_jsonb cols old)))
   \<and> audit_trigger_func tbl cols new_id now (TG_UPDATE old new) logs =
       (new, if {c \<in> set cols. old c \<noteq> new c} = {} then logs
             else logs @ [audit_row new_id now tbl (new ''id'') ''UPDATE''
                            (Some (to_jsonb cols old)) (Some (to_jsonb cols new))
                            (Some (filter (\<lambda>c. old c \<noteq> new c) cols))])"
proof -
  have 1: "changed_set (changed_cols (to_jsonb cols old) (to_jsonb cols new)) = {c \<in> set cols. old c \<noteq> new c}"
    by (auto simp: changed_cols_rows changed_set_def array_agg_def filter_empty_conv)
  have e: "(filter (\<lambda>c. old c \<noteq> new c) cols = []) = ({c \<in> set cols. old c \<noteq> new c} = {})"
    unfolding filter_empty_conv by auto
  have 3: "audit_trigger_func tbl cols new_id now (TG_UPDATE old new) logs =
       (new, if {c \<in> set cols. old c \<noteq> new c} = {} then logs
             else logs @ [audit_row new_id now tbl (new ''id'') ''UPDATE''
                            (Some (to_jsonb cols old)) (Some (to_jsonb cols new))
                            (Some (filter (\<lambda>c. old c \<noteq> new c) cols))])"
    unfolding audit_trigger_func_def tg_op.case Let_def changed_cols_rows e[symmetric]
    by (simp add: array_agg_def array_length_def)
  show ?thesis using 1 3 by (simp only: sym_diff_rows)
qed

section \<open>The point of sale and its claims\<close>

lemma pow2_pos: "0 < pow2 e"
  by (simp add: pow2_def)

lemma round_half_even_nonneg: "0 \<le> x \<Longrightarrow> 0 \<le> round_half_even x"
  by (simp add: round_half_even_def Let_def)

lemma binary64_nonneg: "0 \<le> x \<Longrightarrow> 0 \<le> binary64 x"
  by (auto simp: binary64_def Let_def pow2_pos less_imp_le round_half_even_nonneg
        intro!: mult_nonneg_nonneg)

lemma pow2_powi: "pow2 e = 2 powi e"
  by (simp add: pow2_def power_int_def inverse_eq_divide power_one_over)

lemma pow2_add: "pow2 (a + b) = pow2 a * pow2 b"
  by (simp add: pow2_powi power_int_add)

lemma pow2_less_iff: "pow2 a < pow2 b \<longleftrightarrow> a < b"
proof
  assume "a < b"
  then show "pow2 a < pow2 b"
    unfolding pow2_powi by (intro power_int_strict_increasing) simp_all
next
  assume l: "pow2 a < pow2 b"
  show "a < b"
  proof (rule ccontr)
    assume "\<not> a < b"
    then have "b \<le> a" by simp
    then have "pow2 b \<le> pow2 a"
      unfolding pow2_powi by (intro power_int_increasing) simp_all
    with l show False by simp
  qed
qed

lemma bitlen_pow2_bounds:
  assumes "0 < x"
  shows "pow2 (bitlen x - 1) \<le> of_int x" and "of_int x < pow2 (bitlen x)"
proof -
  from assms have b: "1 \<le> bitlen x" by (auto simp: bitlen_alt_def)
  from bitlen_bounds[OF assms] have l: "(2::int) ^ nat (bitlen x - 1) \<le> x"
    and u: "x < 2 ^ nat (bitlen x)" by simp_all
  from l have "(of_int ((2::int) ^ nat (bitlen x - 1)) :: rat) \<le> of_int x"
    by (simp only: of_int_le_iff)
  then show "pow2 (bitlen x - 1) \<le> of_int x"
    using b by (simp add: pow2_def)
  from u have "(of_int x :: rat) < of_int ((2::int) ^ nat (bitlen x))"
    by (simp only: of_int_less_iff)
  then show "of_int x < pow2 (bitlen x)"
    using b by (simp add: pow2_def)
qed

lemma ilog2_bounds:
  assumes "0 < a"
  shows "pow2 (ilog2 a) \<le> a \<and> a < pow2 (ilog2 a + 1)"
proof -
  obtain p q where pq: "quotient_of a = (p, q)" by (cases "quotient_of a")
  then have q0: "0 < q" by (rule quotient_of_denom_pos)
  have a: "a = of_int p / of_int q" using pq by (rule quotient_of_div)
  with assms q0 have p0: "0 < p" by (simp add: zero_less_divide_iff)
  let ?e = "bitlen p - bitlen q"
  note bp = bitlen_pow2_bounds[OF p0] and bq = bitlen_pow2_bounds[OF q0]
  have qr: "(0::rat) < of_int q" using q0 by simp
  have up: "a < pow2 (?e + 1)"
  proof -
    have "a * of_int q < pow2 (bitlen p)" using bp(2) qr by (simp add: a)
    also have "\<dots> = pow2 (?e + 1) * pow2 (bitlen q - 1)"
      by (simp add: pow2_add[symmetric])
    also have "\<dots> \<le> pow2 (?e + 1) * of_int q"
      using bq(1) by (intro mult_left_mono) (simp_all add: pow2_pos less_imp_le)
    finally show ?thesis using qr by simp
  qed
  have lo: "pow2 (?e - 1) \<le> a"
  proof -
    have "pow2 (?e - 1) * of_int q \<le> pow2 (?e - 1) * pow2 (bitlen q)"
      using bq(2) by (intro mult_left_mono) (simp_all add: pow2_pos less_imp_le)
    also have "\<dots> = pow2 (bitlen p - 1)"
      by (simp add: pow2_add[symmetric])
    also have "\<dots> \<le> a * of_int q" using bp(1) qr by (simp add: a)
    finally show ?thesis using qr by simp
  qed
  show ?thesis
    using up lo by (simp add: ilog2_def pq Let_def not_le less_imp_le)
qed

lemma ilog2_unique:
  assumes "pow2 e \<le> a" and "a < pow2 (e + 1)"
  shows "ilog2 a = e"
proof -
  have "0 < a" using assms(1) pow2_pos[of e] by simp
  from ilog2_bounds[OF this] have b: "pow2 (ilog2 a) \<le> a" "a < pow2 (ilog2 a + 1)"
    by simp_all
  from b(1) assms(2) have "pow2 (ilog2 a) < pow2 (e + 1)" by simp
  then have 1: "ilog2 a < e + 1" by (simp add: pow2_less_iff)
  from assms(1) b(2) have "pow2 e < pow2 (ilog2 a + 1)" by simp
  then have 2: "e < ilog2 a + 1" by (simp add: pow2_less_iff)
  from 1 2 show ?thesis by simp
qed

lemma bitlen_one: "bitlen 1 = 1"
  by (simp add: bitlen_alt_def)

lemma ilog2_of_int:
  assumes "0 < n"
  shows "ilog2 (of_int n) = bitlen n - 1"
proof -
  from assms have b: "1 \<le> bitlen n"
    by (auto simp: bitlen_alt_def)
  from bitlen_bounds[OF assms] have "(2::int) ^ nat (bitlen n - 1) \<le> n" ..
  then have "(of_int ((2::int) ^ nat (bitlen n - 1)) :: rat) \<le> of_int n"
    by (simp only: of_int_le_iff)
  then have "pow2 (bitlen n - 1) \<le> of_int n"
    using b by (simp add: pow2_def)
  then show ?thesis
    by (simp add: ilog2_def bitlen_one)
qed

lemma round_half_even_of_int: "round_half_even (of_int k) = k"
  by (simp add: round_half_even_def)

lemma binary64_of_nat_exact:
  assumes "0 < n" and "n < 2 ^ 53"
  shows "binary64 (of_int n) = of_int n"
proof -
  have b1: "1 \<le> bitlen n"
    using assms(1) by (auto simp: bitlen_alt_def)
  have b2: "bitlen n \<le> 53"
    using assms(2) by (simp add: bitlen_le_iff_power)
  define k where "k = nat (53 - bitlen n)"
  have q: "max (ilog2 (of_int n)) (- 1022) - 52 = - int k"
    using b1 b2 by (simp add: ilog2_of_int[OF assms(1)] k_def)
  have p: "pow2 (- int k) = 1 / 2 ^ k"
    by (simp add: pow2_def)
  have d: "(of_int n :: rat) / pow2 (- int k) = of_int (n * 2 ^ k)"
    by (simp add: p)
  have a: "\<bar>of_int n :: rat\<bar> = of_int n"
    using assms(1) by simp
  have s: "sgn (of_int n :: rat) = 1"
    using assms(1) by simp
  have nz: "(of_int n :: rat) \<noteq> 0"
    using assms(1) by simp
  show ?thesis
    unfolding binary64_def Let_def a q d round_half_even_of_int s
    using nz by (simp add: p)
qed

lemma binary64_of_int_exact:
  assumes "0 \<le> n" and "n < 2 ^ 53"
  shows "binary64 (of_int n) = of_int n"
proof (cases "n = 0")
  case True
  then show ?thesis by (simp add: binary64_def)
next
  case False
  with assms show ?thesis by (intro binary64_of_nat_exact) simp_all
qed

lemma exact_subtotal_nonneg: "list_all whole_item items \<Longrightarrow> 0 \<le> exact_subtotal items"
  by (induction items) (auto simp: exact_subtotal_def whole_item_def)

lemma foldl_exact:
  assumes "list_all whole_item items" and "0 \<le> acc" and "acc \<in> \<int>"
    and "acc + exact_subtotal items < 2 ^ 53"
  shows "foldl (\<lambda>sum item. js_add sum (js_mul (ci_price item) (of_int (ci_quantity item)))) acc items
           = acc + exact_subtotal items"
  using assms
proof (induction items arbitrary: acc)
  case Nil
  then show ?case by (simp add: exact_subtotal_def)
next
  case (Cons item items)
  from Cons.prems(1) have w: "whole_item item" and ws: "list_all whole_item items"
    by simp_all
  from w obtain p where p: "ci_price item = of_int p" "0 \<le> p"
    by (auto simp: whole_item_def elim!: Ints_cases)
  from Cons.prems(3) obtain a where a: "acc = of_int a"
    by (auto elim!: Ints_cases)
  with Cons.prems(2) have a0: "0 \<le> a" by simp
  let ?k = "ci_quantity item"
  from w have k0: "0 \<le> ?k" by (simp add: whole_item_def)
  have rest: "0 \<le> exact_subtotal items"
    by (rule exact_subtotal_nonneg[OF ws])
  have split: "exact_subtotal (item # items) = of_int (p * ?k) + exact_subtotal items"
    by (simp add: exact_subtotal_def p)
  have pk0: "0 \<le> p * ?k" using p(2) k0 by simp
  have bound: "(of_int (a + p * ?k) :: rat) < 2 ^ 53"
    using Cons.prems(4) rest by (simp add: split a)
  then have bi: "a + p * ?k < 2 ^ 53"
    by (metis of_int_less_numeral_power_cancel_iff)
  have pkb: "p * ?k < 2 ^ 53" using bi a0 by simp
  have m: "js_mul (ci_price item) (of_int ?k) = of_int (p * ?k)"
    using binary64_of_int_exact[OF pk0 pkb] by (simp add: js_mul_def p)
  have s: "js_add acc (of_int (p * ?k)) = of_int (a + p * ?k)"
    using binary64_of_int_exact[of "a + p * ?k"] a0 pk0 bi by (simp add: js_add_def a)
  have "foldl (\<lambda>sum item. js_add sum (js_mul (ci_price item) (of_int (ci_quantity item)))) acc (item # items)
      = foldl (\<lambda>sum item. js_add sum (js_mul (ci_price item) (of_int (ci_quantity item)))) (of_int (a + p * ?k)) items"
    by (simp only: foldl_Cons m s)
  also have "\<dots> = of_int (a + p * ?k) + exact_subtotal items"
  proof (rule Cons.IH[OF ws])
    have "0 \<le> a + p * ?k" using a0 pk0 by simp
    then show "(0::rat) \<le> of_int (a + p * ?k)"
      by (simp only: of_int_0_le_iff)
    show "(of_int (a + p * ?k) :: rat) \<in> \<int>" by (rule Ints_of_int)
    show "of_int (a + p * ?k) + exact_subtotal items < 2 ^ 53"
      using Cons.prems(4) by (simp add: split a)
  qed
  finally show ?case by (simp add: split a)
qed

lemma subtotal_exact:
  assumes "list_all whole_item items" and "exact_subtotal items < 2 ^ 53"
  shows "subtotal (calculateTotals items) = exact_subtotal items"
  using foldl_exact[OF assms(1), of 0] assms(2)
  by (simp add: calculateTotals_def Let_def)

lemma number_tenth: "Number (1 / 10) = 3602879701896397 / 36028797018963968"
  unfolding Number_def by code_simp

lemma floor_add_frac:
  fixes f :: rat
  assumes "0 \<le> f" and "f < 1"
  shows "\<lfloor>of_int M + f\<rfloor> = M"
  using assms by (intro floor_unique) simp_all

lemma round_half_even_near:
  assumes "0 \<le> f" and "f < 1 / 2"
  shows "round_half_even (of_int M + f) = M"
proof -
  have "\<lfloor>of_int M + f\<rfloor> = M"
    using assms by (intro floor_add_frac) simp_all
  then show ?thesis
    using assms by (simp add: round_half_even_def Let_def)
qed

lemma tax_exact:
  assumes "0 \<le> m" and "m < 2 ^ 53"
  shows "js_mul (of_int (10 * m)) (Number (1 / 10)) = of_int m"
proof (cases "m = 0")
  case True
  then show ?thesis by (simp add: js_mul_def binary64_def)
next
  case False
  with assms(1) have m0: "0 < m" by simp
  define x :: rat where "x = of_int (10 * m) * (3602879701896397 / 36028797018963968)"
  have x: "x = of_int m + of_int m / 2 ^ 54"
    by (simp add: x_def field_simps)
  have mr: "(0::rat) < of_int m" using m0 by simp
  have mb: "(of_int m :: rat) < 2 ^ 53"
    using assms(2) by (metis of_int_less_numeral_power_cancel_iff)
  have fr: "(of_int m :: rat) / 2 ^ 54 < 1 / 2"
    using mb by simp
  have fr0: "(0::rat) \<le> of_int m / 2 ^ 54"
    using mr by simp
  have xpos: "0 < x" using mr fr0 by (simp add: x)
  let ?e = "bitlen m - 1"
  have b1: "1 \<le> bitlen m" using m0 by (auto simp: bitlen_alt_def)
  have b2: "bitlen m \<le> 53" using assms(2) by (simp add: bitlen_le_iff_power)
  note bm = bitlen_pow2_bounds[OF m0]
  have lo: "pow2 ?e \<le> x" using bm(1) fr0 by (simp add: x)
  have "m < 2 ^ nat (bitlen m)" using bitlen_bounds[OF m0] by simp
  then have "m + 1 \<le> 2 ^ nat (bitlen m)" by simp
  then have "(of_int (m + 1) :: rat) \<le> of_int ((2::int) ^ nat (bitlen m))"
    by (simp only: of_int_le_iff)
  then have m1: "(of_int m :: rat) + 1 \<le> pow2 (bitlen m)"
    using b1 by (simp add: pow2_def)
  have up: "x < pow2 (?e + 1)" using m1 fr by (simp add: x)
  have il: "ilog2 x = ?e" by (rule ilog2_unique[OF lo up])
  define k where "k = nat (53 - bitlen m)"
  have q: "max (ilog2 x) (- 1022) - 52 = - int k"
    using b1 b2 by (simp add: il k_def)
  have p: "pow2 (- int k) = 1 / 2 ^ k" by (simp add: pow2_def)
  have "m * 2 ^ k < 2 ^ nat (bitlen m) * 2 ^ k"
    using bitlen_bounds[OF m0] by simp
  also have "\<dots> = (2::int) ^ 53"
    using b1 b2 by (simp add: k_def power_add[symmetric] nat_add_distrib[symmetric])
  finally have Mb: "m * 2 ^ k < 2 ^ 53" .
  then have Mr: "(of_int (m * 2 ^ k) :: rat) < 2 ^ 53"
    by (metis of_int_less_numeral_power_cancel_iff)
  have M0: "(0::rat) \<le> of_int (m * 2 ^ k)" using m0 by simp
  have d: "x / pow2 (- int k) = of_int (m * 2 ^ k) + of_int (m * 2 ^ k) / 2 ^ 54"
    by (simp add: p x field_simps)
  have r: "round_half_even (x / pow2 (- int k)) = m * 2 ^ k"
    unfolding d using Mr M0 by (intro round_half_even_near) simp_all
  have ax: "\<bar>x\<bar> = x" and sx: "sgn x = 1" and nx: "x \<noteq> 0"
    using xpos by simp_all
  have "binary64 x = of_int m"
    unfolding binary64_def Let_def ax sx q r
    using nx by (simp add: p)
  then show ?thesis
    by (simp add: js_mul_def number_tenth x_def)
qed

lemma calculateTotals_exact:
  assumes "list_all whole_item items" and "exact_subtotal items / 10 \<in> \<int>"
    and "exact_subtotal items + exact_subtotal items / 10 < 2 ^ 53"
  shows "calculateTotals items = exact_totals items"
proof -
  let ?S = "exact_subtotal items"
  have S0: "0 \<le> ?S" by (rule exact_subtotal_nonneg[OF assms(1)])
  from assms(2) obtain m where m: "?S / 10 = of_int m" by (auto elim!: Ints_cases)
  then have S: "?S = of_int (10 * m)" by simp
  have m0: "0 \<le> m" using S0 S by simp
  have "(of_int (11 * m) :: rat) < 2 ^ 53" using assms(3) by (simp add: S)
  then have b11: "11 * m < 2 ^ 53" by (metis of_int_less_numeral_power_cancel_iff)
  then have bm: "m < 2 ^ 53" and b10: "10 * m < 2 ^ 53" using m0 by simp_all
  have "?S < 2 ^ 53" using assms(3) S0 by simp
  then have sub: "subtotal (calculateTotals items) = of_int (10 * m)"
    using subtotal_exact[OF assms(1)] S by simp
  have t: "js_mul (of_int (10 * m)) (Number (1 / 10)) = of_int m"
    by (rule tax_exact[OF m0 bm])
  have s0: "js_sub (of_int (10 * m)) 0 = of_int (10 * m)"
    using binary64_of_int_exact[of "10 * m"] m0 b10 by (simp add: js_sub_def)
  have a: "js_add (of_int (10 * m)) (of_int m) = of_int (11 * m)"
    using binary64_of_int_exact[of "11 * m"] m0 b11 by (simp add: js_add_def)
  have f: "foldl (\<lambda>sum item. js_add sum (js_mul (ci_price item) (of_int (ci_quantity item)))) 0 items
      = of_int (10 * m)"
    using sub by (simp add: calculateTotals_def Let_def)
  show ?thesis
    unfolding calculateTotals_def Let_def f t s0 a exact_totals_def S
    by simp
qed

lemma mul_25000_2: "js_mul 25000 2 = 50000"
  unfolding js_mul_def by code_simp
lemma add_0_50000: "js_add 0 50000 = 50000"
  unfolding js_add_def by code_simp
lemma sub_50000_0: "js_sub 50000 0 = 50000"
  unfolding js_sub_def by code_simp
lemma tax_50000: "js_mul 50000 (Number (1 / 10)) = 5000"
  unfolding js_mul_def Number_def by code_simp
lemma add_50000_5000: "js_add 50000 5000 = 55000"
  unfolding js_add_def by code_simp
lemma sub_60000_55000: "js_sub (Number 60000) 55000 = 5000"
  unfolding js_sub_def Number_def by code_simp

text \<open>
  C6, as the code has it.  \<open>calculateTotals\<close> computes in JavaScript numbers: the
  subtotal is the sum over the cart of price times quantity, each product and each partial
  sum rounded to binary64; there is no discount; the tax is the rounded product of the
  subtotal and 0.1; the total is the rounded subtotal - discount + tax.  For whole prices
  and a subtotal below \<open>2 ^ 53\<close> the subtotal is the exact sum; if moreover the subtotal
  is a multiple of 10 and subtotal plus tax stays below \<open>2 ^ 53\<close>, the tax is exactly a
  tenth and the total exactly subtotal - discount + tax.  Two units at 25000 give 50000,
  5000 and 55000.
\<close>

theorem calculateTotals_identity:
  "subtotal (calculateTotals items)
     = foldl (\<lambda>sum item. js_add sum (js_mul (ci_price item) (of_int (ci_quantity item)))) 0 items
   \<and> discount (calculateTotals items) = 0
   \<and> tax (calculateTotals items) = js_mul (subtotal (calculateTotals items)) (Number (1 / 10))
   \<and> total (calculateTotals items)
       = js_add (js_sub (subtotal (calculateTotals items)) (discount (calculateTotals items)))
           (tax (calculateTotals items))
   \<and> (list_all whole_item items \<and> exact_subtotal items < 2 ^ 53 \<longrightarrow>
        subtotal (calculateTotals items) = exact_subtotal items)
   \<and> (list_all whole_item items \<and> exact_subtotal items / 10 \<in> \<int> \<and>
        exact_subtotal items + exact_subtotal items / 10 < 2 ^ 53 \<longrightarrow>
        calculateTotals items = exact_totals items)
   \<and> calculateTotals two_lattes = \<lparr>subtotal = 50000, discount = 0, tax = 5000, total = 55000\<rparr>"
proof -
  have ex: "calculateTotals two_lattes = \<lparr>subtotal = 50000, discount = 0, tax = 5000, total = 55000\<rparr>"
    by (simp add: calculateTotals_def Let_def two_lattes_def mul_25000_2 add_0_50000 sub_50000_0
          tax_50000 add_50000_5000)
  have st: "list_all whole_item items \<and> exact_subtotal items < 2 ^ 53 \<longrightarrow>
        subtotal (calculateTotals items) = exact_subtotal items"
    using subtotal_exact[of items] by blast
  have all: "list_all whole_item items \<and> exact_subtotal items / 10 \<in> \<int> \<and>
        exact_subtotal items + exact_subtotal items / 10 < 2 ^ 53 \<longrightarrow>
        calculateTotals items = exact_totals items"
    using calculateTotals_exact[of items] by blast
  have fields: "subtotal (calculateTotals items)
     = foldl (\<lambda>sum item. js_add sum (js_mul (ci_price item) (of_int (ci_quantity item)))) 0 items"
    "discount (calculateTotals items) = 0"
    "tax (calculateTotals items) = js_mul (subtotal (calculateTotals items)) (Number (1 / 10))"
    "total (calculateTotals items)
       = js_add (js_sub (subtotal (calculateTotals items)) (discount (calculateTotals items)))
           (tax (calculateTotals items))"
    by (simp_all add: calculateTotals_def Let_def)
  show ?thesis
    using fields st all ex by blast
qed

text \<open>The two lattes are whole, their exact subtotal is 50000 and a tenth of it is 5000.\<close>

theorem calculateTotals_identity_witness:
  "list_all whole_item two_lattes \<and> exact_subtotal two_lattes < 2 ^ 53 \<and>
   exact_subtotal two_lattes / 10 \<in> \<int> \<and>
   exact_subtotal two_lattes + exact_subtotal two_lattes / 10 < 2 ^ 53 \<and>
   subtotal (calculateTotals two_lattes) = 50000 \<and>
   calculateTotals two_lattes = exact_totals two_lattes \<and>
   exact_totals two_lattes = \<lparr>subtotal = 50000, discount = 0, tax = 5000, total = 55000\<rparr>"
proof -
  have w: "list_all whole_item two_lattes"
    by (simp add: two_lattes_def whole_item_def)
  have s: "exact_subtotal two_lattes = 50000"
    by (simp add: exact_subtotal_def two_lattes_def)
  have t: "exact_subtotal two_lattes / 10 = of_int 5000"
    by (simp add: s)
  have i: "exact_subtotal two_lattes / 10 \<in> \<int>"
    unfolding t by (rule Ints_of_int)
  have b: "exact_subtotal two_lattes < 2 ^ 53"
    "exact_subtotal two_lattes + exact_subtotal two_lattes / 10 < 2 ^ 53"
    by (simp_all add: s)
  have e: "exact_totals two_lattes = \<lparr>subtotal = 50000, discount = 0, tax = 5000, total = 55000\<rparr>"
    by (simp add: exact_totals_def s)
  from calculateTotals_identity[of two_lattes] w i b
  have "subtotal (calculateTotals two_lattes) = exact_subtotal two_lattes"
    and "calculateTotals two_lattes = exact_totals two_lattes"
    by blast+
  then show ?thesis
    using w i b e by (simp add: s)
qed

text \<open>
  C6 as stated fails on one item at 33: the subtotal is 33, the tax is not a tenth of it
  (it is the binary64 product of 33 and 0.1) and the total is not subtotal - discount + tax.
\<close>

theorem calculateTotals_exact_counterexample:
  "subtotal (calculateTotals one_at_33) = 33 \<and>
   discount (calculateTotals one_at_33) = 0 \<and>
   tax (calculateTotals one_at_33) \<noteq> subtotal (calculateTotals one_at_33) / 10 \<and>
   total (calculateTotals one_at_33)
     \<noteq> subtotal (calculateTotals one_at_33) - discount (calculateTotals one_at_33)
         + tax (calculateTotals one_at_33)"
  by code_simp

lemma payment_change_exact:
  assumes "total tot \<in> \<int>" and "number_or_zero input \<in> \<int>"
    and "total tot \<le> number_or_zero input"
    and "number_or_zero input - total tot < 2 ^ 53"
  shows "payment_change tot input = number_or_zero input - total tot"
proof -
  from assms(1) obtain t where t: "total tot = of_int t" by (auto elim!: Ints_cases)
  from assms(2) obtain r where r: "number_or_zero input = of_int r" by (auto elim!: Ints_cases)
  have d0: "0 \<le> r - t" using assms(3) by (simp add: t r)
  have "(of_int (r - t) :: rat) < 2 ^ 53" using assms(4) by (simp add: t r)
  then have db: "r - t < 2 ^ 53" by (metis of_int_less_numeral_power_cancel_iff)
  have "js_sub (of_int r) (of_int t) = of_int (r - t)"
    using binary64_of_int_exact[OF d0 db] by (simp add: js_sub_def)
  then show ?thesis
    using d0 by (simp add: payment_change_def Let_def t r)
qed

text \<open>
  C7.  A payment whose amount received is below the total is rejected: the error toast
  is all that changes, no transaction is created and the cart stays.  For an amount of at
  least the total the change shown is the amount received minus the total, as JavaScript
  subtracts them, and exactly so for whole amounts; 60000 against the total of 55000
  gives 5000.
\<close>

theorem completePayment_insufficient:
  "(number_or_zero input < total tot \<longrightarrow>
      completePayment pm tot input api_error st = toast ''Insufficient payment amount'' ''error'' st \<and>
      created (completePayment pm tot input api_error st) = created st \<and>
      cart (completePayment pm tot input api_error st) = cart st)
   \<and> (total tot \<le> number_or_zero input \<longrightarrow>
        payment_change tot input = js_sub (number_or_zero input) (total tot))
   \<and> (total tot \<le> number_or_zero input \<and> total tot \<in> \<int> \<and> number_or_zero input \<in> \<int> \<and>
        number_or_zero input - total tot < 2 ^ 53 \<longrightarrow>
        payment_change tot input = number_or_zero input - total tot)
   \<and> payment_change (calculateTotals two_lattes) (Some 60000) = 5000"
proof (intro conjI impI)
  assume "total tot \<le> number_or_zero input"
  then have "0 \<le> js_sub (number_or_zero input) (total tot)"
    unfolding js_sub_def by (intro binary64_nonneg) simp
  then show "payment_change tot input = js_sub (number_or_zero input) (total tot)"
    by (simp add: payment_change_def Let_def)
next
  assume "total tot \<le> number_or_zero input \<and> total tot \<in> \<int> \<and> number_or_zero input \<in> \<int> \<and>
        number_or_zero input - total tot < 2 ^ 53"
  then show "payment_change tot input = number_or_zero input - total tot"
    by (intro payment_change_exact) simp_all
next
  show "payment_change (calculateTotals two_lattes) (Some 60000) = 5000"
    by (simp add: payment_change_def calculateTotals_def Let_def two_lattes_def mul_25000_2
          add_0_50000 sub_50000_0 tax_50000 add_50000_5000 number_or_zero_def sub_60000_55000)
qed (simp_all add: completePayment_def Let_def toast_def)

text \<open>50000 against 55000 is rejected; 60000 leaves 5000.\<close>

theorem completePayment_insufficient_witness:
  "number_or_zero (Some 50000) < total (calculateTotals two_lattes) \<and>
   created (completePayment cash (calculateTotals two_lattes) (Some 50000) None pos_two_lattes) = [] \<and>
   cart (completePayment cash (calculateTotals two_lattes) (Some 50000) None pos_two_lattes) = two_lattes \<and>
   total (calculateTotals two_lattes) \<le> number_or_zero (Some 60000) \<and>
   total (calculateTotals two_lattes) \<in> \<int> \<and> number_or_zero (Some 60000) \<in> \<int> \<and>
   number_or_zero (Some 60000) - total (calculateTotals two_lattes) < 2 ^ 53 \<and>
   js_sub (number_or_zero (Some 60000)) (total (calculateTotals two_lattes)) = 5000 \<and>
   payment_change (calculateTotals two_lattes) (Some 60000)
     = number_or_zero (Some 60000) - total (calculateTotals two_lattes)"
proof -
  have t: "total (calculateTotals two_lattes) = 55000"
    by (simp add: calculateTotals_def Let_def two_lattes_def mul_25000_2 add_0_50000 sub_50000_0
        tax_50000 add_50000_5000)
  have n5: "number_or_zero (Some 50000) = 50000"
    unfolding number_or_zero_def Number_def option.case by code_simp
  have n6: "number_or_zero (Some 60000) = 60000"
    unfolding number_or_zero_def Number_def option.case by code_simp
  have lt: "number_or_zero (Some 50000) < total (calculateTotals two_lattes)"
    by (simp add: t n5)
  have ge: "total (calculateTotals two_lattes) \<le> number_or_zero (Some 60000)"
    by (simp add: t n6)
  have it: "total (calculateTotals two_lattes) \<in> \<int>"
    unfolding t by simp
  have ir: "number_or_zero (Some 60000) \<in> \<int>"
    unfolding n6 by simp
  have bd: "number_or_zero (Some 60000) - total (calculateTotals two_lattes) < 2 ^ 53"
    by (simp add: t n6)
  from completePayment_insufficient[of "Some 50000" "calculateTotals two_lattes" cash None pos_two_lattes] lt
  have a: "created (completePayment cash (calculateTotals two_lattes) (Some 50000) None pos_two_lattes) = created pos_two_lattes"
     "cart (completePayment cash (calculateTotals two_lattes) (Some 50000) None pos_two_lattes) = cart pos_two_lattes"
    by blast+
  from completePayment_insufficient[of "Some 60000" "calculateTotals two_lattes" cash None pos_two_lattes]
    ge it ir bd
  have b: "js_sub (number_or_zero (Some 60000)) (total (calculateTotals two_lattes)) = 5000"
    and c: "payment_change (calculateTotals two_lattes) (Some 60000)
     = number_or_zero (Some 60000) - total (calculateTotals two_lattes)"
    by metis+
  show ?thesis using a b c lt ge it ir bd by (simp add: pos_two_lattes_def)
qed

lemma list_all_update_first:
  "list_all P xs \<Longrightarrow> (\<And>x. P x \<Longrightarrow> Q x \<Longrightarrow> P (f x)) \<Longrightarrow> list_all P (update_first Q f xs)"
  by (induction xs) auto

lemma find_update_first:
  "find Q xs = Some x \<Longrightarrow> Q (f x) \<Longrightarrow> find Q (update_first Q f xs) = Some (f x)"
  by (induction xs) (auto split: if_splits)

lemma length_update_first [simp]: "length (update_first Q f xs) = length xs"
  by (induction xs) auto

lemma filter_update_first:
  "(\<And>x. Q x \<Longrightarrow> Q (f x)) \<Longrightarrow> filter (\<lambda>x. \<not> Q x) (update_first Q f xs) = filter (\<lambda>x. \<not> Q x) xs"
  by (induction xs) auto

lemma find_Some_holds: "find P xs = Some x \<Longrightarrow> P x \<and> x \<in> set xs"
  by (induction xs) (auto split: if_splits)

lemma cart_toast [simp]: "cart (toast m k st) = cart st"
  by (simp add: toast_def)

lemma addToCart_ok: "cart_ok (cart st) \<Longrightarrow> cart_ok (cart (addToCart pid st))"
  by (auto simp: addToCart_def cart_ok_def split: option.splits intro!: list_all_update_first)

lemma removeFromCart_ok: "cart_ok (cart st) \<Longrightarrow> cart_ok (cart (removeFromCart iid st))"
  by (simp add: removeFromCart_def cart_ok_def list_all_iff)

lemma list_all_update_first_found:
  "find Q xs = Some x \<Longrightarrow> P (f x) \<Longrightarrow> list_all P xs \<Longrightarrow> list_all P (update_first Q f xs)"
  by (induction xs) (auto split: if_splits)

lemma updateQuantity_ok:
  assumes "cart_ok (cart st)"
  shows "cart_ok (cart (updateQuantity iid action st))"
proof (cases "find (\<lambda>i. ci_id i = iid) (cart st)")
  case None
  with assms show ?thesis by (simp add: updateQuantity_def)
next
  case (Some item)
  have inc: "list_all (\<lambda>i. 1 \<le> ci_quantity i)
          (update_first (\<lambda>i. ci_id i = iid) (\<lambda>i. i\<lparr>ci_quantity := ci_quantity i + 1\<rparr>) (cart st))"
    using assms by (auto simp: cart_ok_def intro!: list_all_update_first)
  have rem: "list_all (\<lambda>i. 1 \<le> ci_quantity i)
          (filter (\<lambda>i. ci_id i \<noteq> iid)
             (update_first (\<lambda>i. ci_id i = iid) (\<lambda>i. i\<lparr>ci_quantity := ci_quantity i - 1\<rparr>) (cart st)))"
    using assms by (simp add: cart_ok_def filter_update_first list_all_iff)
  have dec: "list_all (\<lambda>i. 1 \<le> ci_quantity i)
          (update_first (\<lambda>i. ci_id i = iid) (\<lambda>i. i\<lparr>ci_quantity := ci_quantity i - 1\<rparr>) (cart st))"
    if "\<not> ci_quantity item - 1 \<le> 0"
    using assms that by (intro list_all_update_first_found[OF Some]) (simp_all add: cart_ok_def)
  show ?thesis
    using assms inc rem dec Some
    by (simp add: updateQuantity_def cart_ok_def removeFromCart_def Let_def)
qed

lemma addToCart_existing:
  assumes "find (\<lambda>p. p_id p = pid) (products st) = Some p"
    and "find (\<lambda>i. ci_id i = pid) (cart st) = Some item"
  shows "find (\<lambda>i. ci_id i = pid) (cart (addToCart pid st)) = Some (item\<lparr>ci_quantity := ci_quantity item + 1\<rparr>)"
    and "length (cart (addToCart pid st)) = length (cart st)"
  using assms find_Some_holds[OF assms(2)]
  by (simp_all add: addToCart_def find_update_first)

lemma updateQuantity_decrease_removes:
  assumes "find (\<lambda>i. ci_id i = iid) (cart st) = Some item" and "ci_quantity item \<le> 1"
  shows "cart (updateQuantity iid ''decrease'' st) = filter (\<lambda>i. ci_id i \<noteq> iid) (cart st)"
  using assms
  by (simp add: updateQuantity_def removeFromCart_def Let_def filter_update_first)

text \<open>
  C10.  \<open>addToCart\<close>, \<open>updateQuantity\<close> (with any action), \<open>removeFromCart\<close> and
  \<open>clearCart\<close> keep every quantity in the cart at 1 or more.  Adding a product that is
  in the cart adds 1 to its quantity and no item; decreasing an item whose quantity is 1
  (or less) removes it from the cart.
\<close>

theorem cart_quantity_at_least_one:
  "(cart_ok (cart st) \<longrightarrow>
      cart_ok (cart (addToCart pid st)) \<and> cart_ok (cart (updateQuantity iid action st)) \<and>
      cart_ok (cart (removeFromCart iid st)))
   \<and> cart_ok (cart (clearCart st))
   \<and> (find (\<lambda>p. p_id p = pid) (products st) \<noteq> None \<and>
        find (\<lambda>i. ci_id i = pid) (cart st) = Some item \<longrightarrow>
        find (\<lambda>i. ci_id i = pid) (cart (addToCart pid st))
          = Some (item\<lparr>ci_quantity := ci_quantity item + 1\<rparr>) \<and>
        length (cart (addToCart pid st)) = length (cart st))
   \<and> (find (\<lambda>i. ci_id i = iid) (cart st) = Some item' \<and> ci_quantity item' \<le> 1 \<longrightarrow>
        cart (updateQuantity iid ''decrease'' st) = filter (\<lambda>i. ci_id i \<noteq> iid) (cart st) \<and>
        find (\<lambda>i. ci_id i = iid) (cart (updateQuantity iid ''decrease'' st)) = None)"
proof (intro conjI impI)
  show "cart_ok (cart (clearCart st))"
    by (simp add: clearCart_def cart_ok_def)
next
  assume a: "find (\<lambda>i. ci_id i = iid) (cart st) = Some item' \<and> ci_quantity item' \<le> 1"
  then show c: "cart (updateQuantity iid ''decrease'' st) = filter (\<lambda>i. ci_id i \<noteq> iid) (cart st)"
    by (simp add: updateQuantity_decrease_removes)
  show "find (\<lambda>i. ci_id i = iid) (cart (updateQuantity iid ''decrease'' st)) = None"
    unfolding c by (simp add: find_None_iff)
qed (auto simp: addToCart_ok updateQuantity_ok removeFromCart_ok addToCart_existing)

text \<open>From two lattes: one more makes 3, one less makes 1, one less again empties the cart.\<close>

theorem cart_quantity_at_least_one_witness:
  "cart_ok (cart pos_two_lattes) \<and>
   find (\<lambda>p. p_id p = ''1'') (products pos_two_lattes) \<noteq> None \<and>
   map ci_quantity (cart (addToCart ''1'' pos_two_lattes)) = [3] \<and>
   map ci_quantity (cart (updateQuantity ''1'' ''decrease'' pos_two_lattes)) = [1] \<and>
   ci_quantity (hd (cart (updateQuantity ''1'' ''decrease'' pos_two_lattes))) \<le> 1 \<and>
   cart (updateQuantity ''1'' ''decrease'' (updateQuantity ''1'' ''decrease'' pos_two_lattes)) = [] \<and>
   cart_ok (cart (updateQuantity ''1'' ''decrease'' pos_two_lattes))"
proof -
  have ok: "cart_ok (cart pos_two_lattes)"
    by (simp add: cart_ok_def pos_two_lattes_def two_lattes_def)
  have f: "find (\<lambda>p. p_id p = ''1'') (products pos_two_lattes) \<noteq> None"
    by (simp add: pos_two_lattes_def coffee_latte_def)
  have g: "find (\<lambda>i. ci_id i = ''1'') (cart pos_two_lattes) = Some (hd two_lattes)"
    by (simp add: pos_two_lattes_def two_lattes_def)
  have d1: "cart (updateQuantity ''1'' ''decrease'' pos_two_lattes) = [(hd two_lattes)\<lparr>ci_quantity := 1\<rparr>]"
    by (simp add: updateQuantity_def pos_two_lattes_def two_lattes_def Let_def)
  have g': "find (\<lambda>i. ci_id i = ''1'') (cart (updateQuantity ''1'' ''decrease'' pos_two_lattes))
      = Some ((hd two_lattes)\<lparr>ci_quantity := 1\<rparr>)"
    by (simp add: d1 two_lattes_def)
  note t1 = cart_quantity_at_least_one[of pos_two_lattes "''1''" "''1''" "''decrease''" "hd two_lattes" "hd two_lattes"]
  note t2 = cart_quantity_at_least_one[of "updateQuantity ''1'' ''decrease'' pos_two_lattes" "''1''" "''1''" "''decrease''"
      "(hd two_lattes)\<lparr>ci_quantity := 1\<rparr>" "(hd two_lattes)\<lparr>ci_quantity := 1\<rparr>"]
  from t1 ok f g have a: "find (\<lambda>i. ci_id i = ''1'') (cart (addToCart ''1'' pos_two_lattes))
          = Some ((hd two_lattes)\<lparr>ci_quantity := ci_quantity (hd two_lattes) + 1\<rparr>)"
      "length (cart (addToCart ''1'' pos_two_lattes)) = length (cart pos_two_lattes)"
      "cart_ok (cart (updateQuantity ''1'' ''decrease'' pos_two_lattes))"
    by simp_all
  from t2 g' have e: "cart (updateQuantity ''1'' ''decrease'' (updateQuantity ''1'' ''decrease'' pos_two_lattes))
     = filter (\<lambda>i. ci_id i \<noteq> ''1'') (cart (updateQuantity ''1'' ''decrease'' pos_two_lattes))"
    by simp
  have q3: "map ci_quantity (cart (addToCart ''1'' pos_two_lattes)) = [3]"
    by (simp add: addToCart_def pos_two_lattes_def two_lattes_def coffee_latte_def toast_def)
  show ?thesis
    using ok f a(3) e q3 by (simp add: d1 two_lattes_def)
qed

end
